theory Spec2Isabelle
  imports Main
begin

section \<open>JavaScript strings and values\<close>

text \<open>
  The analyser of \<^verbatim>\<open>ai_misinformation_tool_react_single_file.jsx\<close> is the function
  \<^verbatim>\<open>mockAnalyze({ type, content })\<close> together with its helpers \<^verbatim>\<open>clamp\<close> and
  \<^verbatim>\<open>fakeConfidenceFromSignals\<close>.

  A JavaScript string is a sequence of UTF-16 code units, here a list of integers (each
  from 0 to 65535). The string literals of the source are ASCII; \<open>js\<close> turns such a
  literal into its code units.
\<close>

type_synonym jstring = "int list"

definition js :: "string \<Rightarrow> jstring" where
  "js s = map of_char s"

text \<open>
  The environment of a call: the clock read by \<^verbatim>\<open>new Date()\<close> (milliseconds since the
  epoch), and the two points where the host's built-ins are not fixed by this theory:
  whether the date parser rolls a day beyond the month's length over into the next month
  or rejects it, and \<^verbatim>\<open>String.prototype.toLowerCase\<close> on strings that hold a code unit
  outside the range defined below.
\<close>

record env =
  now :: int
  roll_over :: bool
  wide_toLowerCase :: "jstring \<Rightarrow> jstring"

text \<open>
  \<^verbatim>\<open>String.prototype.toLowerCase\<close>. On code units below 256 the letters A to Z and the
  Latin-1 capitals 0xC0 to 0xDE (the multiplication sign 0xD7 apart) move up by 32, and
  every other unit stays. The capital I with dot above, U+0130 (304), becomes the two
  units U+0069 U+0307. A string with any other code unit is lower-cased by the
  environment's function.
\<close>

definition lower_latin1 :: "int \<Rightarrow> int" where
  "lower_latin1 u =
     (if (65 \<le> u \<and> u \<le> 90) \<or> (192 \<le> u \<and> u \<le> 222 \<and> u \<noteq> 215) then u + 32 else u)"

definition lower_unit :: "int \<Rightarrow> jstring" where
  "lower_unit u = (if u = 304 then [105, 775] else [lower_latin1 u])"

definition in_repertoire :: "int \<Rightarrow> bool" where
  "in_repertoire u = ((0 \<le> u \<and> u < 256) \<or> u = 304)"

definition toLowerCase :: "env \<Rightarrow> jstring \<Rightarrow> jstring" where
  "toLowerCase e s =
     (if list_all in_repertoire s then concat (map lower_unit s) else wide_toLowerCase e s)"

text \<open>
  \<^verbatim>\<open>String.prototype.trim\<close> removes white space and line terminators at both ends: TAB,
  LF, VT, FF, CR, SPACE, U+00A0, U+1680, U+2000 to U+200A, U+2028, U+2029, U+202F, U+205F,
  U+3000 and U+FEFF.
\<close>

definition is_space :: "int \<Rightarrow> bool" where
  "is_space u =
     (u \<in> {9, 10, 11, 12, 13, 32, 160, 5760, 8232, 8233, 8239, 8287, 12288, 65279}
      \<or> (8192 \<le> u \<and> u \<le> 8202))"

definition trim :: "jstring \<Rightarrow> jstring" where
  "trim s = rev (dropWhile is_space (rev (dropWhile is_space s)))"

text \<open>\<^verbatim>\<open>String.prototype.includes\<close>: the search string occurs somewhere in the text.\<close>

fun starts_with :: "jstring \<Rightarrow> jstring \<Rightarrow> bool" where
  "starts_with s [] = True"
| "starts_with [] (p # ps) = False"
| "starts_with (c # cs) (p # ps) = (c = p \<and> starts_with cs ps)"

fun str_includes :: "jstring \<Rightarrow> jstring \<Rightarrow> bool" where
  "str_includes [] p = (p = [])"
| "str_includes (c # cs) p = (starts_with (c # cs) p \<or> str_includes cs p)"

text \<open>\<^verbatim>\<open>Array.prototype.includes\<close> on an array of strings.\<close>

definition array_includes :: "string list \<Rightarrow> string \<Rightarrow> bool" where
  "array_includes xs x = (x \<in> set xs)"

text \<open>
  The \<^verbatim>\<open>content\<close> field is untyped in the source, so it is a JavaScript value:
  \<^verbatim>\<open>undefined\<close>, \<^verbatim>\<open>null\<close>, a boolean, a string, or any other value (a number, a
  bigint, a symbol, an object). Line 39 observes two things of such another value \<open>v\<close>:
  whether it is truthy, and what \<^verbatim>\<open>v.toString()\<close> gives to \<^verbatim>\<open>toLowerCase\<close>, which is
  either a string or an error thrown on the way (a TypeError when \<open>v\<close> has no callable
  \<^verbatim>\<open>toString\<close> or when that returns a value without \<^verbatim>\<open>toLowerCase\<close>, or whatever
  \<^verbatim>\<open>toString\<close> itself throws). \<open>JOther\<close> holds these two observations: the number
  12345678901 is \<open>JOther True (Inr (js ''12345678901''))\<close>, the number 0 is
  \<open>JOther False (Inr (js ''0''))\<close>, and the object \<^verbatim>\<open>Object.create(null)\<close> is
  \<open>JOther True (Inl TypeError)\<close>.
\<close>

datatype js_error = TypeError | Thrown

datatype js_value =
  JUndefined | JNull | JBool bool | JStr jstring | JOther bool "js_error + jstring"

text \<open>Truthiness, as used by \<^verbatim>\<open>!content\<close> and \<^verbatim>\<open>content || ""\<close>.\<close>

fun truthy :: "js_value \<Rightarrow> bool" where
  "truthy JUndefined = False"
| "truthy JNull = False"
| "truthy (JBool b) = b"
| "truthy (JStr s) = (s \<noteq> [])"
| "truthy (JOther b out) = b"

text \<open>The operator \<^verbatim>\<open>a || b\<close>.\<close>

definition js_or :: "js_value \<Rightarrow> js_value \<Rightarrow> js_value" where
  "js_or a b = (if truthy a then a else b)"

text \<open>
  The method call \<^verbatim>\<open>v.toString()\<close>: a property access on \<^verbatim>\<open>undefined\<close> or \<^verbatim>\<open>null\<close>
  throws a TypeError.
\<close>

fun toString :: "js_value \<Rightarrow> js_error + jstring" where
  "toString JUndefined = Inl TypeError"
| "toString JNull = Inl TypeError"
| "toString (JBool b) = Inr (js (if b then ''true'' else ''false''))"
| "toString (JStr s) = Inr s"
| "toString (JOther b out) = out"

section \<open>Regular expressions of the date check\<close>

text \<open>
  Both regular expressions are sequences of single-character atoms: \<^verbatim>\<open>\d\<close> (an ASCII
  digit) or a literal character. \<^verbatim>\<open>str.match(re)\<close> without the global flag returns the
  leftmost match, or \<^verbatim>\<open>null\<close>.
\<close>

datatype atom = Digit | Lit char

definition is_digit :: "int \<Rightarrow> bool" where
  "is_digit u = (48 \<le> u \<and> u \<le> 57)"

fun atom_matches :: "atom \<Rightarrow> int \<Rightarrow> bool" where
  "atom_matches Digit u = is_digit u"
| "atom_matches (Lit l) u = (u = of_char l)"

fun match_here :: "atom list \<Rightarrow> jstring \<Rightarrow> bool" where
  "match_here [] s = True"
| "match_here (a # as) [] = False"
| "match_here (a # as) (c # cs) = (atom_matches a c \<and> match_here as cs)"

fun regex_match :: "atom list \<Rightarrow> jstring \<Rightarrow> jstring option" where
  "regex_match re [] = (if match_here re [] then Some [] else None)"
| "regex_match re (c # cs) =
     (if match_here re (c # cs) then Some (take (length re) (c # cs))
      else regex_match re cs)"

text \<open>\<^verbatim>\<open>/\d{4}-\d{2}-\d{2}/\<close>\<close>

definition date_re :: "atom list" where
  "date_re = [Digit, Digit, Digit, Digit, Lit CHR ''-'', Digit, Digit, Lit CHR ''-'',
              Digit, Digit]"

text \<open>\<^verbatim>\<open>/(20\d{2}-\d{2}-\d{2})/\<close>: the only group is the whole match.\<close>

definition future_re :: "atom list" where
  "future_re = [Lit CHR ''2'', Lit CHR ''0'', Digit, Digit, Lit CHR ''-'', Digit, Digit,
                Lit CHR ''-'', Digit, Digit]"

section \<open>Dates\<close>

text \<open>
  \<^verbatim>\<open>new Date(s)\<close> on a date-only string \<^verbatim>\<open>YYYY-MM-DD\<close> is midnight UTC of that day, as
  milliseconds since the epoch (ECMA-262: DayFromYear, MakeDay, MakeDate), or an invalid
  date. The month must be 01 to 12 and the day 01 to 31. For a day beyond the month's
  length engines differ: some roll over into the next month (\<open>roll_over = True\<close>), the
  others give an invalid date.
\<close>

definition DayFromYear :: "int \<Rightarrow> int" where
  "DayFromYear y =
     365 * (y - 1970) + (y - 1969) div 4 - (y - 1901) div 100 + (y - 1601) div 400"

definition InLeapYear :: "int \<Rightarrow> bool" where
  "InLeapYear y = (y mod 4 = 0 \<and> (y mod 400 = 0 \<or> y mod 100 \<noteq> 0))"

definition DaysInMonth :: "int \<Rightarrow> int \<Rightarrow> int" where
  "DaysInMonth y m =
     (if m = 2 then (if InLeapYear y then 29 else 28)
      else if m \<in> {4, 6, 9, 11} then 30 else 31)"

text \<open>Days since the epoch of the first day of month \<open>m\<close> (1 to 12).\<close>

definition MonthStart :: "int \<Rightarrow> int \<Rightarrow> int" where
  "MonthStart y m = DayFromYear y + (\<Sum>k \<leftarrow> [1 .. m - 1]. DaysInMonth y k)"

definition digit_val :: "int \<Rightarrow> int" where
  "digit_val u = u - 48"

definition number_of :: "jstring \<Rightarrow> int" where
  "number_of ds = foldl (\<lambda>acc u. 10 * acc + digit_val u) 0 ds"

definition Date_parse :: "bool \<Rightarrow> jstring \<Rightarrow> int option" where
  "Date_parse roll s =
     (if length s = 10 \<and> match_here date_re s then
        (let y = number_of (take 4 s);
             m = number_of (take 2 (drop 5 s));
             d = number_of (take 2 (drop 8 s))
         in if 1 \<le> m \<and> m \<le> 12 \<and> 1 \<le> d \<and> d \<le> 31 \<and> (roll \<or> d \<le> DaysInMonth y m)
            then Some (86400000 * (MonthStart y m + d - 1))
            else None)
      else None)"

text \<open>\<^verbatim>\<open>d > new Date()\<close>: an invalid date compares false.\<close>

definition date_after :: "int option \<Rightarrow> int \<Rightarrow> bool" where
  "date_after d t = (case d of None \<Rightarrow> False | Some ms \<Rightarrow> ms > t)"

section \<open>The scorer\<close>

text \<open>\<^verbatim>\<open>function clamp(n, a = 0, b = 100) { return Math.max(a, Math.min(b, n)); }\<close>\<close>

definition clamp :: "int \<Rightarrow> int \<Rightarrow> int \<Rightarrow> int" where
  "clamp n a b = max a (min b n)"

text \<open>The running \<^verbatim>\<open>score\<close> of \<^verbatim>\<open>fakeConfidenceFromSignals\<close> before it is clamped.\<close>

definition rawScore :: "string list \<Rightarrow> int" where
  "rawScore signals =
     (let score = 50;
          score = (if array_includes signals ''many-contradictions'' then score - 30 else score);
          score = (if array_includes signals ''authoritative-sources'' then score + 25 else score);
          score = (if array_includes signals ''fabricated-dates'' then score - 20 else score);
          score = (if array_includes signals ''no-sources'' then score - 15 else score);
          score = (if array_includes signals ''image-manipulated'' then score - 25 else score)
      in score)"

text \<open>The same score as a function of the outcomes of the five membership tests.\<close>

definition flag_score :: "bool \<Rightarrow> bool \<Rightarrow> bool \<Rightarrow> bool \<Rightarrow> bool \<Rightarrow> int" where
  "flag_score contradictions authoritative dates no_sources manipulated =
     50 + (if contradictions then - 30 else 0) + (if authoritative then 25 else 0)
        + (if dates then - 20 else 0) + (if no_sources then - 15 else 0)
        + (if manipulated then - 25 else 0)"

definition fakeConfidenceFromSignals :: "string list \<Rightarrow> int" where
  "fakeConfidenceFromSignals signals = clamp (rawScore signals) 0 100"

section \<open>The analyser\<close>

text \<open>
  The sentences pushed onto \<^verbatim>\<open>explanation\<close> and the entries of
  \<^verbatim>\<open>recommendedActions\<close> are fixed texts of the source (some hold a dash outside
  Latin-1); each is named by a constructor:
  \<^item> \<open>Expl_too_short\<close>: "The text is very short -- short claims often lack context or sources."
  \<^item> \<open>Expl_clickbait\<close>: "Language matches clickbait patterns; be cautious of exaggerated claims."
  \<^item> \<open>Expl_no_sources\<close>: "Claims use vague 'sources' without links -- prefer named verifiable sources."
  \<^item> \<open>Expl_fabricated_dates\<close>: "The text references dates that appear to be in the future or inconsistent."
  \<^item> \<open>Expl_authoritative\<close>: "Mentions recognized organizations -- try to verify via their official channels."
  \<^item> \<open>Expl_image_manipulated\<close>: "Mentions AI-generation or manipulation; images/video may be altered."
  \<^item> \<open>Expl_contradictions\<close>: "The text contains contradictory statements -- check multiple reputable sources."
  \<^item> \<open>Expl_no_flags\<close>: "No strong heuristic red flags detected in the quick demo check."
  \<^item> \<open>Cross_check\<close>: "Cross-check with 2 reputable outlets (official organizations, verified news sites)"
  \<^item> \<open>Search_exact_text\<close>: "Search for the exact claim text in quotes -- see if original context exists"
  \<^item> \<open>Reverse_image_search\<close>: "If image/video is claimed, reverse-image-search it or inspect metadata"
  \<^item> \<open>Prefer_primary\<close>: "Prefer primary sources (official statements, reports) over social posts"
\<close>

datatype sentence =
  Expl_too_short | Expl_clickbait | Expl_no_sources | Expl_fabricated_dates
  | Expl_authoritative | Expl_image_manipulated | Expl_contradictions | Expl_no_flags

datatype action = Cross_check | Search_exact_text | Reverse_image_search | Prefer_primary

record payload =
  type_ :: string
  content :: js_value

record result =
  verdict :: string
  confidence :: int
  signals :: "string list"
  explanation :: "sentence list"
  recommendedActions :: "action list"

text \<open>The receiver of \<^verbatim>\<open>toLowerCase\<close> in line 39: \<^verbatim>\<open>(content || "").toString()\<close>.\<close>

definition content_text :: "js_value \<Rightarrow> js_error + jstring" where
  "content_text c = toString (js_or c (JStr []))"

text \<open>One \<^verbatim>\<open>if (cond) xs.push(v)\<close> statement.\<close>

definition push_if :: "bool \<Rightarrow> 'a \<Rightarrow> 'a list \<Rightarrow> 'a list" where
  "push_if cond v xs = (if cond then xs @ [v] else xs)"

text \<open>The date check of lines 51 to 58: whether \<^verbatim>\<open>"fabricated-dates"\<close> is pushed.\<close>

definition fabricated_date :: "env \<Rightarrow> jstring \<Rightarrow> bool" where
  "fabricated_date e lower =
     (if regex_match date_re lower \<noteq> None then
        (case regex_match future_re lower of
           None \<Rightarrow> False
         | Some futureDate \<Rightarrow> date_after (Date_parse (roll_over e) futureDate) (now e))
      else False)"

text \<open>Lines 40 to 67: the array \<^verbatim>\<open>signals\<close>, from \<^verbatim>\<open>content\<close> and \<^verbatim>\<open>lower\<close>.\<close>

definition collect_signals :: "env \<Rightarrow> js_value \<Rightarrow> jstring \<Rightarrow> string list" where
  "collect_signals e c lower =
     (let signals = [];
          signals = push_if (\<not> truthy c \<or> length (trim lower) < 10) ''too-short'' signals;
          signals = push_if (str_includes lower (js ''shocking'')
                       \<or> str_includes lower (js ''you won't believe'')) ''clickbait-y'' signals;
          signals = push_if (str_includes lower (js ''according to our sources'')
                       \<and> \<not> str_includes lower (js ''https'')) ''no-sources'' signals;
          signals = push_if (fabricated_date e lower) ''fabricated-dates'' signals;
          signals = push_if (str_includes lower (js ''deepfake'')
                       \<or> str_includes lower (js ''ai-generated'')) ''image-manipulated'' signals;
          signals = push_if (str_includes lower (js ''cdc'') \<or> str_includes lower (js ''who'')
                       \<or> str_includes lower (js ''nyt'')) ''authoritative-sources'' signals;
          signals = push_if (str_includes lower (js ''contradictory'')
                       \<or> str_includes lower (js ''but then'')) ''many-contradictions'' signals
      in signals)"

text \<open>Line 70: the verdict, from the confidence.\<close>

definition verdict_of :: "int \<Rightarrow> string" where
  "verdict_of c =
     (if c \<ge> 60 then ''Likely Real''
      else if c \<le> 35 then ''Likely Fake'' else ''Unclear / Needs Review'')"

text \<open>Lines 72 to 81: the array \<^verbatim>\<open>explanation\<close>.\<close>

definition explain :: "string list \<Rightarrow> sentence list" where
  "explain sigs =
     (let explanation = [];
          explanation = push_if (array_includes sigs ''too-short'') Expl_too_short explanation;
          explanation = push_if (array_includes sigs ''clickbait-y'') Expl_clickbait explanation;
          explanation = push_if (array_includes sigs ''no-sources'') Expl_no_sources explanation;
          explanation = push_if (array_includes sigs ''fabricated-dates'')
                          Expl_fabricated_dates explanation;
          explanation = push_if (array_includes sigs ''authoritative-sources'')
                          Expl_authoritative explanation;
          explanation = push_if (array_includes sigs ''image-manipulated'')
                          Expl_image_manipulated explanation;
          explanation = push_if (array_includes sigs ''many-contradictions'')
                          Expl_contradictions explanation;
          explanation = push_if (length explanation = 0) Expl_no_flags explanation
      in explanation)"

text \<open>
  \<^verbatim>\<open>mockAnalyze\<close>: the value its promise resolves to, or the error it rejects with. The
  delay before the analysis has no effect on the value; \<open>e\<close> is the environment of the
  call.
\<close>

definition mockAnalyze :: "env \<Rightarrow> payload \<Rightarrow> js_error + result" where
  "mockAnalyze e p =
     (case content_text (content p) of
        Inl err \<Rightarrow> Inl err
      | Inr str \<Rightarrow>
          (let lower = toLowerCase e str;
               sigs = collect_signals e (content p) lower;
               conf = fakeConfidenceFromSignals sigs
           in Inr \<lparr>verdict = verdict_of conf,
                   confidence = conf,
                   signals = sigs,
                   explanation = explain sigs,
                   recommendedActions =
                     [Cross_check, Search_exact_text, Reverse_image_search, Prefer_primary]\<rparr>))"

section \<open>The specification's scoring table\<close>

text \<open>
  The table of the specification, for comparison with \<^const>\<open>fakeConfidenceFromSignals\<close>:
  the weighted signals with their deltas. The score of the specification is the baseline
  50 plus the deltas of the rows whose signal is present; a score below 0 becomes 0 and a
  score above 100 becomes 100.
\<close>

definition weight_table :: "(string \<times> int) list" where
  "weight_table =
     [(''many-contradictions'', - 30), (''authoritative-sources'', 25),
      (''fabricated-dates'', - 20), (''no-sources'', - 15), (''image-manipulated'', - 25)]"

definition score_spec :: "string list \<Rightarrow> int" where
  "score_spec sigs =
     (let total = 50 + sum_list (map snd (filter (\<lambda>row. fst row \<in> set sigs) weight_table))
      in if total < 0 then 0 else if 100 < total then 100 else total)"

section \<open>Explanation orders\<close>

text \<open>
  An explanation built from a table of rows (signal, sentence): the sentences of the rows
  whose signal is present, in the table's order, or the fallback sentence when there is
  none.
\<close>

definition explain_by :: "(string \<times> sentence) list \<Rightarrow> string list \<Rightarrow> sentence list" where
  "explain_by rows sigs =
     (let lines = map snd (filter (\<lambda>row. fst row \<in> set sigs) rows)
      in if lines = [] then [Expl_no_flags] else lines)"

text \<open>The rows in the order of the statements of lines 73 to 79 of the source.\<close>

definition source_rows :: "(string \<times> sentence) list" where
  "source_rows =
     [(''too-short'', Expl_too_short), (''clickbait-y'', Expl_clickbait),
      (''no-sources'', Expl_no_sources), (''fabricated-dates'', Expl_fabricated_dates),
      (''authoritative-sources'', Expl_authoritative),
      (''image-manipulated'', Expl_image_manipulated),
      (''many-contradictions'', Expl_contradictions)]"

text \<open>
  The rows in the enumeration order the specification gives: Clickbait, NoSources,
  FabricatedDates, ImageManipulated, AuthoritativeSources, ManyContradictions, TooShort.
\<close>

definition spec_rows :: "(string \<times> sentence) list" where
  "spec_rows =
     [(''clickbait-y'', Expl_clickbait), (''no-sources'', Expl_no_sources),
      (''fabricated-dates'', Expl_fabricated_dates),
      (''image-manipulated'', Expl_image_manipulated),
      (''authoritative-sources'', Expl_authoritative),
      (''many-contradictions'', Expl_contradictions), (''too-short'', Expl_too_short)]"

section \<open>Lemmas about the scorer\<close>

lemma rawScore_flags:
  "rawScore sigs =
     flag_score (''many-contradictions'' \<in> set sigs) (''authoritative-sources'' \<in> set sigs)
       (''fabricated-dates'' \<in> set sigs) (''no-sources'' \<in> set sigs)
       (''image-manipulated'' \<in> set sigs)"
  unfolding rawScore_def array_includes_def Let_def flag_score_def by (simp split: if_splits)

lemma flag_score_le_75: "flag_score a b c d e \<le> 75"
  by (simp add: flag_score_def)

lemma flag_score_ge_60: "60 \<le> flag_score a b c d e \<longleftrightarrow> b \<and> \<not> a \<and> \<not> c \<and> \<not> e"
  by (simp add: flag_score_def)

lemma flag_score_negatives: "flag_score True b True True True \<le> 0"
  by (simp add: flag_score_def)

lemma clamp_bounds: "0 \<le> clamp n 0 100 \<and> clamp n 0 100 \<le> 100"
  by (simp add: clamp_def)

lemma clamp_le_0: "n \<le> 0 \<Longrightarrow> clamp n 0 100 = 0"
  by (simp add: clamp_def)

lemma clamp_le_75: "n \<le> 75 \<Longrightarrow> clamp n 0 100 \<le> 75"
  by (simp add: clamp_def)

lemma clamp_ge_60: "60 \<le> clamp n 0 100 \<longleftrightarrow> 60 \<le> n"
  unfolding clamp_def by linarith

lemma verdict_of_real: "verdict_of c = ''Likely Real'' \<longleftrightarrow> 60 \<le> c"
  by (simp add: verdict_of_def)

lemma verdict_of_fake: "verdict_of c = ''Likely Fake'' \<longleftrightarrow> c \<le> 35"
  by (simp add: verdict_of_def)

lemma verdict_of_review: "verdict_of c = ''Unclear / Needs Review'' \<longleftrightarrow> 36 \<le> c \<and> c \<le> 59"
  by (simp add: verdict_of_def)

lemma rawScore_table:
  "rawScore sigs = 50 + sum_list (map snd (filter (\<lambda>row. fst row \<in> set sigs) weight_table))"
  by (simp add: rawScore_flags flag_score_def weight_table_def)

lemma rawScore_clickbait:
  "rawScore (''clickbait-y'' # sigs) = rawScore sigs"
  "rawScore (removeAll ''clickbait-y'' sigs) = rawScore sigs"
  by (simp_all add: rawScore_flags)

lemma rawScore_too_short:
  "rawScore (''too-short'' # sigs) = rawScore sigs"
  "rawScore (removeAll ''too-short'' sigs) = rawScore sigs"
  by (simp_all add: rawScore_flags)

lemma confidence_bounds:
  "0 \<le> fakeConfidenceFromSignals sigs \<and> fakeConfidenceFromSignals sigs \<le> 100"
  by (simp only: fakeConfidenceFromSignals_def clamp_bounds)

lemma likely_real_scorer:
  "verdict_of (fakeConfidenceFromSignals sigs) = ''Likely Real'' \<longleftrightarrow>
     ''authoritative-sources'' \<in> set sigs \<and> ''many-contradictions'' \<notin> set sigs
     \<and> ''fabricated-dates'' \<notin> set sigs \<and> ''image-manipulated'' \<notin> set sigs"
  by (simp only: verdict_of_real fakeConfidenceFromSignals_def clamp_ge_60 rawScore_flags
      flag_score_ge_60)

lemma confidence_le_75: "fakeConfidenceFromSignals sigs \<le> 75"
  by (simp only: fakeConfidenceFromSignals_def rawScore_flags clamp_le_75 flag_score_le_75)

lemma clamp_cases: "clamp n 0 100 = (if n < 0 then 0 else if 100 < n then 100 else n)"
  by (simp add: clamp_def)

section \<open>Lemmas about the analyser\<close>

lemma content_text_Inl_iff: "content_text c = Inl err \<longleftrightarrow> c = JOther True (Inl err)"
  by (cases c) (auto simp add: content_text_def js_or_def)

lemma mockAnalyze_Inl: "content_text (content p) = Inl err \<Longrightarrow> mockAnalyze e p = Inl err"
  by (simp add: mockAnalyze_def)

lemma content_text_JStr: "content_text (JStr s) = Inr s"
  by (simp add: content_text_def js_or_def)

lemma content_text_falsy: "\<not> truthy c \<Longrightarrow> content_text c = Inr []"
  by (simp add: content_text_def js_or_def)

lemma mockAnalyze_Inr:
  "content_text (content p) = Inr str \<Longrightarrow>
   mockAnalyze e p =
     Inr \<lparr>verdict = verdict_of (fakeConfidenceFromSignals
                        (collect_signals e (content p) (toLowerCase e str))),
          confidence = fakeConfidenceFromSignals
                        (collect_signals e (content p) (toLowerCase e str)),
          signals = collect_signals e (content p) (toLowerCase e str),
          explanation = explain (collect_signals e (content p) (toLowerCase e str)),
          recommendedActions =
            [Cross_check, Search_exact_text, Reverse_image_search, Prefer_primary]\<rparr>"
  by (simp add: mockAnalyze_def Let_def)

lemma push_if_append: "push_if b v xs = xs @ (if b then [v] else [])"
  by (simp add: push_if_def)

lemma collect_signals_append:
  "collect_signals e c lower =
     (if \<not> truthy c \<or> length (trim lower) < 10 then [''too-short''] else [])
     @ (if str_includes lower (js ''shocking'') \<or> str_includes lower (js ''you won't believe'')
        then [''clickbait-y''] else [])
     @ (if str_includes lower (js ''according to our sources'') \<and> \<not> str_includes lower (js ''https'')
        then [''no-sources''] else [])
     @ (if fabricated_date e lower then [''fabricated-dates''] else [])
     @ (if str_includes lower (js ''deepfake'') \<or> str_includes lower (js ''ai-generated'')
        then [''image-manipulated''] else [])
     @ (if str_includes lower (js ''cdc'') \<or> str_includes lower (js ''who'') \<or> str_includes lower (js ''nyt'')
        then [''authoritative-sources''] else [])
     @ (if str_includes lower (js ''contradictory'') \<or> str_includes lower (js ''but then'')
        then [''many-contradictions''] else [])"
  apply (simp only: collect_signals_def)
  apply (simp only: Let_def)
  apply (simp only: push_if_append)
  apply (simp only: append_Nil append_assoc)
  done

lemma in_seven:
  "x \<in> set ((if b1 then [v1] else []) @ (if b2 then [v2] else []) @ (if b3 then [v3] else [])
      @ (if b4 then [v4] else []) @ (if b5 then [v5] else []) @ (if b6 then [v6] else [])
      @ (if b7 then [v7] else [])) \<longleftrightarrow>
   (x = v1 \<and> b1) \<or> (x = v2 \<and> b2) \<or> (x = v3 \<and> b3) \<or> (x = v4 \<and> b4) \<or> (x = v5 \<and> b5)
   \<or> (x = v6 \<and> b6) \<or> (x = v7 \<and> b7)"
  by auto

lemma in_collect_signals:
  "x \<in> set (collect_signals e c lower) \<longleftrightarrow>
     (x = ''too-short'' \<and> (\<not> truthy c \<or> length (trim lower) < 10))
     \<or> (x = ''clickbait-y''
          \<and> (str_includes lower (js ''shocking'') \<or> str_includes lower (js ''you won't believe'')))
     \<or> (x = ''no-sources''
          \<and> (str_includes lower (js ''according to our sources'') \<and> \<not> str_includes lower (js ''https'')))
     \<or> (x = ''fabricated-dates'' \<and> fabricated_date e lower)
     \<or> (x = ''image-manipulated''
          \<and> (str_includes lower (js ''deepfake'') \<or> str_includes lower (js ''ai-generated'')))
     \<or> (x = ''authoritative-sources''
          \<and> (str_includes lower (js ''cdc'') \<or> str_includes lower (js ''who'')
               \<or> str_includes lower (js ''nyt'')))
     \<or> (x = ''many-contradictions''
          \<and> (str_includes lower (js ''contradictory'') \<or> str_includes lower (js ''but then'')))"
  by (simp only: collect_signals_append in_seven)

section \<open>Lemmas about strings and the date check\<close>

lemma starts_with_iff: "starts_with s p \<longleftrightarrow> (\<exists>post. s = p @ post)"
  by (induction s p rule: starts_with.induct) auto

lemma str_includes_iff: "str_includes s p \<longleftrightarrow> (\<exists>pre post. s = pre @ p @ post)"
proof (induction s)
  case Nil
  then show ?case by simp
next
  case (Cons c cs)
  show ?case
  proof
    assume "str_includes (c # cs) p"
    then consider "starts_with (c # cs) p" | "str_includes cs p" by auto
    then show "\<exists>pre post. c # cs = pre @ p @ post"
    proof cases
      case 1
      then obtain post where "c # cs = p @ post" using starts_with_iff by blast
      then have "c # cs = [] @ p @ post" by simp
      then show ?thesis by blast
    next
      case 2
      then obtain pre post where "cs = pre @ p @ post" using Cons.IH by blast
      then have "c # cs = (c # pre) @ p @ post" by simp
      then show ?thesis by blast
    qed
  next
    assume "\<exists>pre post. c # cs = pre @ p @ post"
    then obtain pre post where eq: "c # cs = pre @ p @ post" by blast
    show "str_includes (c # cs) p"
    proof (cases pre)
      case Nil
      with eq have "starts_with (c # cs) p" using starts_with_iff by auto
      then show ?thesis by simp
    next
      case (Cons a pre')
      with eq have "cs = pre' @ p @ post" by simp
      then have "str_includes cs p" using Cons.IH by blast
      then show ?thesis by simp
    qed
  qed
qed

lemma is_space_lower_latin1: "is_space (lower_latin1 u) = is_space u"
  unfolding is_space_def lower_latin1_def by auto

lemma trim_map_lower_latin1: "trim (map lower_latin1 s) = map lower_latin1 (trim s)"
proof -
  have comp: "is_space \<circ> lower_latin1 = is_space"
    by (rule ext) (simp add: is_space_lower_latin1)
  show ?thesis
    by (simp add: trim_def dropWhile_map rev_map comp)
qed

lemma toLowerCase_repertoire:
  "list_all in_repertoire s \<Longrightarrow> toLowerCase e s = concat (map lower_unit s)"
  by (simp add: toLowerCase_def)

lemma concat_lower_unit_latin1:
  "list_all (\<lambda>u. 0 \<le> u \<and> u < 256) s \<Longrightarrow> concat (map lower_unit s) = map lower_latin1 s"
  by (induction s) (simp_all add: lower_unit_def)

lemma latin1_in_repertoire:
  "list_all (\<lambda>u. 0 \<le> u \<and> u < 256) s \<Longrightarrow> list_all in_repertoire s"
  by (induction s) (simp_all add: in_repertoire_def)

lemma toLowerCase_latin1:
  "list_all (\<lambda>u. 0 \<le> u \<and> u < 256) s \<Longrightarrow> toLowerCase e s = map lower_latin1 s"
  by (simp add: toLowerCase_repertoire latin1_in_repertoire concat_lower_unit_latin1)

lemma length_trim_toLowerCase:
  "list_all (\<lambda>u. 0 \<le> u \<and> u < 256) s \<Longrightarrow> length (trim (toLowerCase e s)) = length (trim s)"
  by (simp add: toLowerCase_latin1 trim_map_lower_latin1)

lemma trim_Nil: "trim [] = []"
  by (simp add: trim_def)

lemma toLowerCase_Nil: "toLowerCase e [] = []"
  by (simp add: toLowerCase_def)

lemma match_here_weaken:
  "list_all2 (\<lambda>a b. \<forall>c. atom_matches a c \<longrightarrow> atom_matches b c) re re' \<Longrightarrow>
   match_here re s \<Longrightarrow> match_here re' s"
proof (induction re s arbitrary: re' rule: match_here.induct)
  case (1 s)
  then show ?case by simp
next
  case (2 a as)
  then show ?case by simp
next
  case (3 a as c cs)
  then obtain b bs where re': "re' = b # bs"
    and ab: "\<forall>c. atom_matches a c \<longrightarrow> atom_matches b c"
    and rest: "list_all2 (\<lambda>a b. \<forall>c. atom_matches a c \<longrightarrow> atom_matches b c) as bs"
    by (auto simp: list_all2_Cons1)
  with 3 show ?case by simp
qed

lemma future_re_is_date: "match_here future_re s \<Longrightarrow> match_here date_re s"
  by (erule match_here_weaken [rotated]) (simp add: future_re_def date_re_def is_digit_def)

lemma regex_match_None_iff:
  "regex_match re s = None \<longleftrightarrow> (\<forall>k \<le> length s. \<not> match_here re (drop k s))"
proof (induction s)
  case Nil
  then show ?case by simp
next
  case (Cons c cs)
  have "(\<forall>k \<le> length (c # cs). \<not> match_here re (drop k (c # cs))) \<longleftrightarrow>
        \<not> match_here re (c # cs) \<and> (\<forall>k \<le> length cs. \<not> match_here re (drop k cs))"
    (is "?L \<longleftrightarrow> ?R")
  proof
    assume l: ?L
    have "\<not> match_here re (drop 0 (c # cs))" using l by blast
    moreover have "\<not> match_here re (drop k cs)" if "k \<le> length cs" for k
      using l [rule_format, of "Suc k"] that by simp
    ultimately show ?R by simp
  next
    assume r: ?R
    show ?L
    proof (intro allI impI)
      fix k assume "k \<le> length (c # cs)"
      then show "\<not> match_here re (drop k (c # cs))"
        using r by (cases k) auto
    qed
  qed
  with Cons.IH show ?case by simp
qed

lemma regex_match_future_date:
  "regex_match date_re s = None \<Longrightarrow> regex_match future_re s = None"
  unfolding regex_match_None_iff using future_re_is_date by blast

lemma fabricated_date_iff:
  "fabricated_date e lower \<longleftrightarrow>
     (\<exists>tok ms. regex_match future_re lower = Some tok
        \<and> Date_parse (roll_over e) tok = Some ms \<and> now e < ms)"
proof (cases "regex_match future_re lower")
  case None
  then show ?thesis by (simp add: fabricated_date_def)
next
  case (Some tok)
  then have "regex_match date_re lower \<noteq> None"
    using regex_match_future_date by fastforce
  with Some show ?thesis
    by (auto simp add: fabricated_date_def date_after_def split: option.splits)
qed

section \<open>Lemmas about signals and explanations\<close>

lemma mockAnalyze_JStr:
  "mockAnalyze e \<lparr>type_ = t, content = JStr s\<rparr> =
     Inr \<lparr>verdict = verdict_of (fakeConfidenceFromSignals
                        (collect_signals e (JStr s) (toLowerCase e s))),
          confidence = fakeConfidenceFromSignals (collect_signals e (JStr s) (toLowerCase e s)),
          signals = collect_signals e (JStr s) (toLowerCase e s),
          explanation = explain (collect_signals e (JStr s) (toLowerCase e s)),
          recommendedActions =
            [Cross_check, Search_exact_text, Reverse_image_search, Prefer_primary]\<rparr>"
  using mockAnalyze_Inr [of "\<lparr>type_ = t, content = JStr s\<rparr>" s e]
  by (simp add: content_text_JStr)

lemma no_date_not_fabricated: "regex_match date_re lower = None \<Longrightarrow> \<not> fabricated_date e lower"
  by (simp add: fabricated_date_def)

lemma collect_signals_values:
  assumes "(\<not> truthy c \<or> length (trim lower) < 10) = b1"
    and "(str_includes lower (js ''shocking'') \<or> str_includes lower (js ''you won't believe'')) = b2"
    and "(str_includes lower (js ''according to our sources'') \<and> \<not> str_includes lower (js ''https'')) = b3"
    and "fabricated_date e lower = b4"
    and "(str_includes lower (js ''deepfake'') \<or> str_includes lower (js ''ai-generated'')) = b5"
    and "(str_includes lower (js ''cdc'') \<or> str_includes lower (js ''who'')
           \<or> str_includes lower (js ''nyt'')) = b6"
    and "(str_includes lower (js ''contradictory'') \<or> str_includes lower (js ''but then'')) = b7"
  shows "collect_signals e c lower =
     (if b1 then [''too-short''] else []) @ (if b2 then [''clickbait-y''] else [])
     @ (if b3 then [''no-sources''] else []) @ (if b4 then [''fabricated-dates''] else [])
     @ (if b5 then [''image-manipulated''] else [])
     @ (if b6 then [''authoritative-sources''] else [])
     @ (if b7 then [''many-contradictions''] else [])"
  by (simp only: collect_signals_append assms)

lemma explain_lines:
  "explain sigs =
     (let lines = (if ''too-short'' \<in> set sigs then [Expl_too_short] else [])
          @ (if ''clickbait-y'' \<in> set sigs then [Expl_clickbait] else [])
          @ (if ''no-sources'' \<in> set sigs then [Expl_no_sources] else [])
          @ (if ''fabricated-dates'' \<in> set sigs then [Expl_fabricated_dates] else [])
          @ (if ''authoritative-sources'' \<in> set sigs then [Expl_authoritative] else [])
          @ (if ''image-manipulated'' \<in> set sigs then [Expl_image_manipulated] else [])
          @ (if ''many-contradictions'' \<in> set sigs then [Expl_contradictions] else [])
      in if lines = [] then [Expl_no_flags] else lines)"
proof -
  have fallback: "xs @ (if length xs = 0 then [f] else []) = (if xs = [] then [f] else xs)"
    for xs :: "sentence list" and f
    by simp
  show ?thesis
    apply (simp only: explain_def)
    apply (simp only: Let_def)
    apply (simp only: push_if_append array_includes_def)
    apply (simp only: fallback append_Nil append_assoc)
    done
qed

lemma rows_lines:
  "map snd (filter P (r # rs)) = (if P r then [snd r] else []) @ map snd (filter P rs)"
  by simp

lemma explain_by_source_rows:
  "explain_by source_rows sigs =
     (let lines = (if ''too-short'' \<in> set sigs then [Expl_too_short] else [])
          @ (if ''clickbait-y'' \<in> set sigs then [Expl_clickbait] else [])
          @ (if ''no-sources'' \<in> set sigs then [Expl_no_sources] else [])
          @ (if ''fabricated-dates'' \<in> set sigs then [Expl_fabricated_dates] else [])
          @ (if ''authoritative-sources'' \<in> set sigs then [Expl_authoritative] else [])
          @ (if ''image-manipulated'' \<in> set sigs then [Expl_image_manipulated] else [])
          @ (if ''many-contradictions'' \<in> set sigs then [Expl_contradictions] else [])
      in if lines = [] then [Expl_no_flags] else lines)"
  apply (simp only: explain_by_def source_rows_def)
  apply (simp only: rows_lines filter.simps(1) list.map(1) fst_conv snd_conv append_Nil2)
  done

lemma explain_by_nonempty: "explain_by rows sigs \<noteq> []"
  by (simp add: explain_by_def Let_def)

lemma explain_eq: "explain sigs = explain_by source_rows sigs"
  by (simp only: explain_lines explain_by_source_rows)

section \<open>Lemmas about the content and its text\<close>

lemma mockAnalyze_result_or_error:
  assumes "\<And>str. content_text (content p) = Inr str \<Longrightarrow> \<exists>r. mockAnalyze e p = Inr r \<and> P r"
  shows "(\<exists>r. mockAnalyze e p = Inr r \<and> P r)
    \<or> (\<exists>err. content p = JOther True (Inl err) \<and> mockAnalyze e p = Inl err)"
proof (cases "content_text (content p)")
  case (Inl err)
  then have "content p = JOther True (Inl err)"
    by (simp add: content_text_Inl_iff)
  moreover have "mockAnalyze e p = Inl err"
    using Inl by (rule mockAnalyze_Inl)
  ultimately show ?thesis by blast
next
  case (Inr str)
  then show ?thesis using assms by blast
qed

lemma collect_signals_empty: "collect_signals e c [] = [''too-short'']"
  by (simp add: collect_signals_values [where ?b1.0 = True and ?b2.0 = False
          and ?b3.0 = False and ?b4.0 = False and ?b5.0 = False and ?b6.0 = False
          and ?b7.0 = False] trim_Nil fabricated_date_def date_re_def js_def)

lemma too_short_text:
  "content_text c = Inr str \<Longrightarrow>
   (\<not> truthy c \<or> length (trim (toLowerCase e str)) < 10)
     = (\<not> truthy (JStr str) \<or> length (trim (toLowerCase e str)) < 10)"
  by (cases "truthy c")
    (auto simp add: content_text_def js_or_def toLowerCase_Nil trim_Nil)

lemma collect_signals_text:
  "content_text c = Inr str \<Longrightarrow>
   collect_signals e c (toLowerCase e str) = collect_signals e (JStr str) (toLowerCase e str)"
  by (simp only: collect_signals_append too_short_text)

lemma mockAnalyze_text:
  "content_text c = Inr str \<Longrightarrow>
   mockAnalyze e \<lparr>type_ = t, content = c\<rparr> = mockAnalyze e \<lparr>type_ = t, content = JStr str\<rparr>"
  using mockAnalyze_Inr [of "\<lparr>type_ = t, content = c\<rparr>" str e]
  by (simp add: mockAnalyze_JStr collect_signals_text)

lemma too_short_string:
  "(s = [] \<or> length (trim (toLowerCase e s)) < 10) \<longleftrightarrow> length (trim (toLowerCase e s)) < 10"
  by (cases s) (simp_all add: toLowerCase_Nil trim_Nil)

lemma rawScore_authoritative:
  "''authoritative-sources'' \<in> set sigs \<Longrightarrow>
   rawScore sigs = rawScore (removeAll ''authoritative-sources'' sigs) + 25"
  by (simp add: rawScore_flags flag_score_def)

lemma collect_signals_no_date:
  "regex_match date_re lower = None \<Longrightarrow> collect_signals e c lower = collect_signals e' c lower"
  by (simp only: collect_signals_append no_date_not_fabricated)

text \<open>
  Without a date pattern in a text of the fixed range, the environment and the type field
  play no part.
\<close>

lemma mockAnalyze_any_env:
  assumes "list_all in_repertoire s"
    and "regex_match date_re (concat (map lower_unit s)) = None"
  shows "mockAnalyze e \<lparr>type_ = t, content = JStr s\<rparr>
    = mockAnalyze e' \<lparr>type_ = t', content = JStr s\<rparr>"
  by (simp add: mockAnalyze_JStr toLowerCase_repertoire [OF assms(1)]
      collect_signals_no_date [OF assms(2), of e _ e'])

lemma plus_25_clamped:
  fixes x :: int
  assumes "x \<le> 50"
  shows "(0 \<le> x \<longleftrightarrow> max 0 (min 100 (x + 25)) = max 0 (min 100 x) + 25)
    \<and> max 0 (min 100 x) \<le> max 0 (min 100 (x + 25))
    \<and> max 0 (min 100 (x + 25)) \<le> max 0 (min 100 x) + 25"
  using assms by auto

section \<open>The confidence score\<close>

text \<open>
  C1. For every array of signals, \<^const>\<open>fakeConfidenceFromSignals\<close> returns 50 plus the
  deltas of the weighted signals present (\<open>many-contradictions\<close> -30,
  \<open>authoritative-sources\<close> +25, \<open>fabricated-dates\<close> -20, \<open>no-sources\<close> -15,
  \<open>image-manipulated\<close> -25), clamped to 0..100: a sum below 0 gives 0, a sum above 100
  would give 100. The result depends only on which signals occur, not on their order or
  multiplicity, and putting \<open>clickbait-y\<close> or \<open>too-short\<close> in or taking them out never
  changes it.
\<close>

theorem confidence_is_clamped_sum:
  "fakeConfidenceFromSignals sigs = score_spec sigs
   \<and> clamp n 0 100 = (if n < 0 then 0 else if 100 < n then 100 else n)
   \<and> (\<forall>sigs'. set sigs' = set sigs \<longrightarrow>
         fakeConfidenceFromSignals sigs' = fakeConfidenceFromSignals sigs)
   \<and> fakeConfidenceFromSignals (''clickbait-y'' # sigs) = fakeConfidenceFromSignals sigs
   \<and> fakeConfidenceFromSignals (''too-short'' # sigs) = fakeConfidenceFromSignals sigs
   \<and> fakeConfidenceFromSignals (removeAll ''clickbait-y'' sigs) = fakeConfidenceFromSignals sigs
   \<and> fakeConfidenceFromSignals (removeAll ''too-short'' sigs) = fakeConfidenceFromSignals sigs"
proof -
  have "fakeConfidenceFromSignals sigs = score_spec sigs"
    by (simp only: fakeConfidenceFromSignals_def score_spec_def rawScore_table clamp_cases
        Let_def)
  moreover have "\<forall>sigs'. set sigs' = set sigs \<longrightarrow>
         fakeConfidenceFromSignals sigs' = fakeConfidenceFromSignals sigs"
    by (simp add: fakeConfidenceFromSignals_def rawScore_flags)
  moreover note clamp_cases [of n]
  ultimately show ?thesis
    by (simp only: fakeConfidenceFromSignals_def rawScore_clickbait rawScore_too_short simp_thms)
qed

theorem confidence_is_clamped_sum_witness:
  "fakeConfidenceFromSignals [''no-sources'', ''authoritative-sources''] = 60
   \<and> fakeConfidenceFromSignals [''authoritative-sources'', ''no-sources''] = 60
   \<and> fakeConfidenceFromSignals [''clickbait-y'', ''no-sources'', ''authoritative-sources''] = 60
   \<and> fakeConfidenceFromSignals [''many-contradictions'', ''fabricated-dates'', ''no-sources'',
        ''image-manipulated''] = 0
   \<and> clamp (- 40) 0 100 = 0 \<and> clamp 120 0 100 = 100"
proof -
  let ?s = "[''no-sources'', ''authoritative-sources'']"
  let ?neg = "[''many-contradictions'', ''fabricated-dates'', ''no-sources'',
        ''image-manipulated'']"
  have v: "score_spec ?s = 60" by code_simp
  have w: "score_spec ?neg = 0" by code_simp
  have h: "set [''authoritative-sources'', ''no-sources''] = set ?s" by (simp add: insert_commute)
  have a: "fakeConfidenceFromSignals ?s = 60
      \<and> fakeConfidenceFromSignals [''authoritative-sources'', ''no-sources''] = 60
      \<and> fakeConfidenceFromSignals [''clickbait-y'', ''no-sources'', ''authoritative-sources'']
           = 60"
    using confidence_is_clamped_sum [of ?s] v h by (simp only: simp_thms)
  have b: "fakeConfidenceFromSignals ?neg = 0"
    using confidence_is_clamped_sum [of ?neg] w by (simp only: simp_thms)
  have c: "clamp (- 40) 0 100 = 0"
    using confidence_is_clamped_sum [of _ "- 40"] by simp
  have d: "clamp 120 0 100 = 100"
    using confidence_is_clamped_sum [of _ 120] by simp
  from a b c d show ?thesis by (simp only: simp_thms)
qed

text \<open>
  C3. The confidence is an integer between 0 and 100, for every array of signals and in
  every result of \<^const>\<open>mockAnalyze\<close> (a call returns a result unless its content is a
  value whose \<^verbatim>\<open>toString\<close> fails). With the four signals of negative weight present
  (\<open>many-contradictions\<close>, \<open>fabricated-dates\<close>, \<open>no-sources\<close>, \<open>image-manipulated\<close>) the
  raw sum is 50 - 30 - 20 - 15 - 25 = -40 and the confidence is 0, whatever else is
  present.
\<close>

theorem confidence_in_range:
  "((\<exists>r. mockAnalyze e p = Inr r \<and> 0 \<le> confidence r \<and> confidence r \<le> 100)
      \<or> (\<exists>err. content p = JOther True (Inl err) \<and> mockAnalyze e p = Inl err))
   \<and> (\<exists>r. mockAnalyze e \<lparr>type_ = t, content = JStr s\<rparr> = Inr r
          \<and> 0 \<le> confidence r \<and> confidence r \<le> 100)
   \<and> 0 \<le> fakeConfidenceFromSignals sigs \<and> fakeConfidenceFromSignals sigs \<le> 100
   \<and> rawScore [''many-contradictions'', ''fabricated-dates'', ''no-sources'',
                ''image-manipulated''] = - 40
   \<and> (''many-contradictions'' \<in> set sigs \<and> ''fabricated-dates'' \<in> set sigs
        \<and> ''no-sources'' \<in> set sigs \<and> ''image-manipulated'' \<in> set sigs
        \<longrightarrow> fakeConfidenceFromSignals sigs = 0)"
proof -
  have a: "(\<exists>r. mockAnalyze e p = Inr r \<and> 0 \<le> confidence r \<and> confidence r \<le> 100)
      \<or> (\<exists>err. content p = JOther True (Inl err) \<and> mockAnalyze e p = Inl err)"
    by (rule mockAnalyze_result_or_error) (simp add: mockAnalyze_Inr confidence_bounds)
  have a': "\<exists>r. mockAnalyze e \<lparr>type_ = t, content = JStr s\<rparr> = Inr r
          \<and> 0 \<le> confidence r \<and> confidence r \<le> 100"
    by (simp add: mockAnalyze_JStr confidence_bounds)
  have b: "''many-contradictions'' \<in> set sigs \<and> ''fabricated-dates'' \<in> set sigs
        \<and> ''no-sources'' \<in> set sigs \<and> ''image-manipulated'' \<in> set sigs
        \<longrightarrow> fakeConfidenceFromSignals sigs = 0"
    by (simp add: fakeConfidenceFromSignals_def rawScore_flags clamp_le_0 flag_score_negatives)
  have c: "rawScore [''many-contradictions'', ''fabricated-dates'', ''no-sources'',
                ''image-manipulated''] = - 40"
    by (simp add: rawScore_flags flag_score_def)
  from a a' b c confidence_bounds [of sigs] show ?thesis
    by (simp only: simp_thms)
qed

theorem confidence_in_range_witness:
  "fakeConfidenceFromSignals [''many-contradictions'', ''fabricated-dates'', ''no-sources'',
      ''image-manipulated''] = 0
   \<and> fakeConfidenceFromSignals [''many-contradictions'', ''fabricated-dates'', ''no-sources'',
      ''image-manipulated'', ''authoritative-sources''] = 0"
proof -
  have "fakeConfidenceFromSignals [''many-contradictions'', ''fabricated-dates'',
        ''no-sources'', ''image-manipulated''] = 0"
    using confidence_in_range [of _ _ _ _ "[''many-contradictions'', ''fabricated-dates'',
        ''no-sources'', ''image-manipulated'']"] by simp
  moreover have "fakeConfidenceFromSignals [''many-contradictions'', ''fabricated-dates'',
        ''no-sources'', ''image-manipulated'', ''authoritative-sources''] = 0"
    using confidence_in_range [of _ _ _ _ "[''many-contradictions'', ''fabricated-dates'',
        ''no-sources'', ''image-manipulated'', ''authoritative-sources'']"] by simp
  ultimately show ?thesis by (simp only: simp_thms)
qed

text \<open>
  C9. The confidence is at most 75, the baseline plus the only positive delta. So the
  verdict \<open>Likely Real\<close> (confidence at least 60) is reached exactly when
  \<open>authoritative-sources\<close> is present and, of the signals of negative weight, none but
  \<open>no-sources\<close> is; the same holds of the signals of every result of
  \<^const>\<open>mockAnalyze\<close>.
\<close>

theorem likely_real_needs_authority:
  "fakeConfidenceFromSignals sigs \<le> 75
   \<and> (verdict_of (fakeConfidenceFromSignals sigs) = ''Likely Real'' \<longrightarrow>
        ''authoritative-sources'' \<in> set sigs \<and> ''many-contradictions'' \<notin> set sigs
        \<and> ''fabricated-dates'' \<notin> set sigs \<and> ''image-manipulated'' \<notin> set sigs)
   \<and> (''authoritative-sources'' \<in> set sigs \<and> ''many-contradictions'' \<notin> set sigs
        \<and> ''fabricated-dates'' \<notin> set sigs \<and> ''image-manipulated'' \<notin> set sigs \<longrightarrow>
        verdict_of (fakeConfidenceFromSignals sigs) = ''Likely Real'')
   \<and> ((\<exists>r. mockAnalyze e p = Inr r \<and> confidence r \<le> 75
          \<and> (verdict r = ''Likely Real'' \<longrightarrow>
               ''authoritative-sources'' \<in> set (signals r)
               \<and> ''many-contradictions'' \<notin> set (signals r)
               \<and> ''fabricated-dates'' \<notin> set (signals r)
               \<and> ''image-manipulated'' \<notin> set (signals r)))
       \<or> (\<exists>err. content p = JOther True (Inl err) \<and> mockAnalyze e p = Inl err))
   \<and> (\<exists>r. mockAnalyze e \<lparr>type_ = t, content = JStr s\<rparr> = Inr r \<and> confidence r \<le> 75
          \<and> (verdict r = ''Likely Real'' \<longrightarrow>
               ''authoritative-sources'' \<in> set (signals r)
               \<and> ''many-contradictions'' \<notin> set (signals r)
               \<and> ''fabricated-dates'' \<notin> set (signals r)
               \<and> ''image-manipulated'' \<notin> set (signals r)))"
proof -
  have a: "(\<exists>r. mockAnalyze e p = Inr r \<and> confidence r \<le> 75
          \<and> (verdict r = ''Likely Real'' \<longrightarrow>
               ''authoritative-sources'' \<in> set (signals r)
               \<and> ''many-contradictions'' \<notin> set (signals r)
               \<and> ''fabricated-dates'' \<notin> set (signals r)
               \<and> ''image-manipulated'' \<notin> set (signals r)))
       \<or> (\<exists>err. content p = JOther True (Inl err) \<and> mockAnalyze e p = Inl err)"
    by (rule mockAnalyze_result_or_error)
      (simp add: mockAnalyze_Inr confidence_le_75 likely_real_scorer)
  have b: "\<exists>r. mockAnalyze e \<lparr>type_ = t, content = JStr s\<rparr> = Inr r \<and> confidence r \<le> 75
          \<and> (verdict r = ''Likely Real'' \<longrightarrow>
               ''authoritative-sources'' \<in> set (signals r)
               \<and> ''many-contradictions'' \<notin> set (signals r)
               \<and> ''fabricated-dates'' \<notin> set (signals r)
               \<and> ''image-manipulated'' \<notin> set (signals r))"
    by (simp add: mockAnalyze_JStr confidence_le_75 likely_real_scorer)
  from a b show ?thesis
    by (simp only: confidence_le_75 likely_real_scorer simp_thms)
qed

theorem likely_real_needs_authority_witness:
  "verdict_of (fakeConfidenceFromSignals [''no-sources'', ''authoritative-sources''])
     = ''Likely Real''
   \<and> fakeConfidenceFromSignals [''authoritative-sources''] \<le> 75"
proof -
  have "verdict_of (fakeConfidenceFromSignals [''no-sources'', ''authoritative-sources''])
     = ''Likely Real''"
    using likely_real_needs_authority [of "[''no-sources'', ''authoritative-sources'']"]
    by simp
  moreover have "fakeConfidenceFromSignals [''authoritative-sources''] \<le> 75"
    using likely_real_needs_authority [of "[''authoritative-sources'']"] by (rule conjunct1)
  ultimately show ?thesis by (rule conjI)
qed

section \<open>The verdict\<close>

text \<open>
  C2. The verdict of every result is a function of its confidence alone: \<open>Likely Real\<close>
  exactly from 60 up, \<open>Likely Fake\<close> exactly up to 35, \<open>Unclear / Needs Review\<close> exactly
  from 36 to 59. So 60 is \<open>Likely Real\<close>, 35 is \<open>Likely Fake\<close> and 36 needs review; the
  content "cdc according to our sources" has the signals \<open>no-sources\<close> and
  \<open>authoritative-sources\<close>, confidence 50 + 25 - 15 = 60 and verdict \<open>Likely Real\<close>, in
  every environment.
\<close>

theorem verdict_from_confidence:
  "((\<exists>r. mockAnalyze e p = Inr r \<and> verdict r = verdict_of (confidence r))
      \<or> (\<exists>err. content p = JOther True (Inl err) \<and> mockAnalyze e p = Inl err))
   \<and> (\<exists>r. mockAnalyze e \<lparr>type_ = t, content = JStr s\<rparr> = Inr r
          \<and> verdict r = verdict_of (confidence r))
   \<and> (verdict_of c = ''Likely Real'' \<longleftrightarrow> 60 \<le> c)
   \<and> (verdict_of c = ''Likely Fake'' \<longleftrightarrow> c \<le> 35)
   \<and> (verdict_of c = ''Unclear / Needs Review'' \<longleftrightarrow> 36 \<le> c \<and> c \<le> 59)
   \<and> verdict_of 60 = ''Likely Real'' \<and> verdict_of 35 = ''Likely Fake''
   \<and> verdict_of 36 = ''Unclear / Needs Review''
   \<and> (\<exists>r. mockAnalyze e \<lparr>type_ = t, content = JStr (js ''cdc according to our sources'')\<rparr>
            = Inr r
          \<and> signals r = [''no-sources'', ''authoritative-sources'']
          \<and> confidence r = 60 \<and> verdict r = ''Likely Real'')"
proof -
  have a: "(\<exists>r. mockAnalyze e p = Inr r \<and> verdict r = verdict_of (confidence r))
      \<or> (\<exists>err. content p = JOther True (Inl err) \<and> mockAnalyze e p = Inl err)"
    by (rule mockAnalyze_result_or_error) (simp add: mockAnalyze_Inr)
  have a': "\<exists>r. mockAnalyze e \<lparr>type_ = t, content = JStr s\<rparr> = Inr r
          \<and> verdict r = verdict_of (confidence r)"
    by (simp add: mockAnalyze_JStr)
  have b: "verdict_of 60 = ''Likely Real'' \<and> verdict_of 35 = ''Likely Fake''
      \<and> verdict_of 36 = ''Unclear / Needs Review''"
    by (simp add: verdict_of_def)
  let ?c = "js ''cdc according to our sources''"
  have rep: "list_all in_repertoire ?c" by code_simp
  have nodate: "regex_match date_re (concat (map lower_unit ?c)) = None" by code_simp
  have closed: "mockAnalyze \<lparr>now = 0, roll_over = False, wide_toLowerCase = (\<lambda>s. s)\<rparr>
      \<lparr>type_ = [], content = JStr ?c\<rparr> =
      Inr \<lparr>verdict = ''Likely Real'', confidence = 60,
           signals = [''no-sources'', ''authoritative-sources''],
           explanation = [Expl_no_sources, Expl_authoritative],
           recommendedActions =
             [Cross_check, Search_exact_text, Reverse_image_search, Prefer_primary]\<rparr>"
    by code_simp
  have d: "\<exists>r. mockAnalyze e \<lparr>type_ = t, content = JStr ?c\<rparr> = Inr r
          \<and> signals r = [''no-sources'', ''authoritative-sources'']
          \<and> confidence r = 60 \<and> verdict r = ''Likely Real''"
  proof -
    have "mockAnalyze e \<lparr>type_ = t, content = JStr ?c\<rparr> =
        mockAnalyze \<lparr>now = 0, roll_over = False, wide_toLowerCase = (\<lambda>s. s)\<rparr>
          \<lparr>type_ = [], content = JStr ?c\<rparr>"
      by (rule mockAnalyze_any_env [OF rep nodate])
    then show ?thesis by (simp add: closed)
  qed
  from a a' b d show ?thesis
    by (simp only: verdict_of_real verdict_of_fake verdict_of_review simp_thms)
qed

theorem verdict_from_confidence_witness:
  "verdict_of 59 = ''Unclear / Needs Review'' \<and> verdict_of 100 = ''Likely Real''
   \<and> verdict_of 0 = ''Likely Fake''"
  using verdict_from_confidence [of _ _ _ _ 59] verdict_from_confidence [of _ _ _ _ 100]
    verdict_from_confidence [of _ _ _ _ 0]
  by simp

section \<open>The explanation\<close>

text \<open>
  C4, as the code has it. The explanation holds one fixed sentence for each signal
  present, in the order of the source's statements: \<open>too-short\<close>, \<open>clickbait-y\<close>,
  \<open>no-sources\<close>, \<open>fabricated-dates\<close>, \<open>authoritative-sources\<close>, \<open>image-manipulated\<close>,
  \<open>many-contradictions\<close>; when no sentence was pushed it is the single fallback sentence.
  It is never empty.
\<close>

theorem explanation_in_source_order:
  "explain sigs = explain_by source_rows sigs \<and> explain sigs \<noteq> []
   \<and> ((\<exists>r. mockAnalyze e p = Inr r \<and> explanation r = explain_by source_rows (signals r)
          \<and> explanation r \<noteq> [])
       \<or> (\<exists>err. content p = JOther True (Inl err) \<and> mockAnalyze e p = Inl err))
   \<and> (\<exists>r. mockAnalyze e \<lparr>type_ = t, content = JStr s\<rparr> = Inr r
          \<and> explanation r = explain_by source_rows (signals r) \<and> explanation r \<noteq> [])"
proof -
  have a: "(\<exists>r. mockAnalyze e p = Inr r \<and> explanation r = explain_by source_rows (signals r)
          \<and> explanation r \<noteq> [])
       \<or> (\<exists>err. content p = JOther True (Inl err) \<and> mockAnalyze e p = Inl err)"
    by (rule mockAnalyze_result_or_error)
      (simp add: mockAnalyze_Inr explain_eq explain_by_nonempty)
  have b: "\<exists>r. mockAnalyze e \<lparr>type_ = t, content = JStr s\<rparr> = Inr r
          \<and> explanation r = explain_by source_rows (signals r) \<and> explanation r \<noteq> []"
    by (simp add: mockAnalyze_JStr explain_eq explain_by_nonempty)
  from a b show ?thesis
    by (simp only: explain_eq explain_by_nonempty simp_thms not_False_eq_True)
qed

theorem explanation_in_source_order_witness:
  "explain [] = [Expl_no_flags]
   \<and> explain [''clickbait-y'', ''too-short'', ''many-contradictions''] =
       [Expl_too_short, Expl_clickbait, Expl_contradictions]"
proof -
  have a: "explain_by source_rows [] = [Expl_no_flags]" by code_simp
  have b: "explain_by source_rows [''clickbait-y'', ''too-short'', ''many-contradictions''] =
       [Expl_too_short, Expl_clickbait, Expl_contradictions]" by code_simp
  from a b explanation_in_source_order [of "[]"]
    explanation_in_source_order [of "[''clickbait-y'', ''too-short'', ''many-contradictions'']"]
  show ?thesis by (simp only: simp_thms)
qed

text \<open>
  The order is not the enumeration order of the specification: for the content
  "shocking" the sentence of \<open>too-short\<close> comes first, not last, and the sentence of
  \<open>authoritative-sources\<close> comes before that of \<open>image-manipulated\<close>.
\<close>

theorem explanation_order_counterexample:
  "mockAnalyze \<lparr>now = 1793664000000, roll_over = False, wide_toLowerCase = (\<lambda>s. s)\<rparr>
     \<lparr>type_ = ''text'', content = JStr (js ''shocking'')\<rparr> =
     Inr \<lparr>verdict = ''Unclear / Needs Review'', confidence = 50,
          signals = [''too-short'', ''clickbait-y''],
          explanation = [Expl_too_short, Expl_clickbait],
          recommendedActions =
            [Cross_check, Search_exact_text, Reverse_image_search, Prefer_primary]\<rparr>
   \<and> explain_by spec_rows [''too-short'', ''clickbait-y''] = [Expl_clickbait, Expl_too_short]
   \<and> mockAnalyze \<lparr>now = 1793664000000, roll_over = False, wide_toLowerCase = (\<lambda>s. s)\<rparr>
     \<lparr>type_ = ''text'', content = JStr (js ''A deepfake, says the WHO'')\<rparr> =
     Inr \<lparr>verdict = ''Unclear / Needs Review'', confidence = 50,
          signals = [''image-manipulated'', ''authoritative-sources''],
          explanation = [Expl_authoritative, Expl_image_manipulated],
          recommendedActions =
            [Cross_check, Search_exact_text, Reverse_image_search, Prefer_primary]\<rparr>
   \<and> explain_by spec_rows [''image-manipulated'', ''authoritative-sources''] =
       [Expl_image_manipulated, Expl_authoritative]"
  by code_simp

section \<open>The signal \<open>fabricated-dates\<close>\<close>

text \<open>
  C5, as the code has it. For every string content, \<open>fabricated-dates\<close> is among the
  signals exactly when the leftmost substring of the form \<^verbatim>\<open>20dd-dd-dd\<close> of the
  lower-cased content is a valid date, as the engine's \<^verbatim>\<open>Date\<close> parses it, whose midnight
  UTC is strictly later than the moment of analysis. Only that first token is looked at,
  and only years 2000 to 2099 can match.
\<close>

theorem fabricated_dates_iff_first_20xx_date_is_future:
  "\<exists>r. mockAnalyze e \<lparr>type_ = t, content = JStr s\<rparr> = Inr r
     \<and> (''fabricated-dates'' \<in> set (signals r) \<longleftrightarrow>
          (\<exists>tok ms. regex_match future_re (toLowerCase e s) = Some tok
             \<and> Date_parse (roll_over e) tok = Some ms \<and> now e < ms))"
  by (simp add: mockAnalyze_JStr in_collect_signals fabricated_date_iff)

theorem fabricated_dates_iff_first_20xx_date_is_future_witness:
  "(\<exists>r. mockAnalyze \<lparr>now = 1793664000000, roll_over = False, wide_toLowerCase = (\<lambda>s. s)\<rparr>
       \<lparr>type_ = ''text'', content = JStr (js ''It happens on 2099-01-01'')\<rparr> = Inr r
       \<and> ''fabricated-dates'' \<in> set (signals r))
   \<and> (\<exists>r. mockAnalyze \<lparr>now = 1793664000000, roll_over = False, wide_toLowerCase = (\<lambda>s. s)\<rparr>
       \<lparr>type_ = ''text'', content = JStr (js ''It happened on 2020-01-01'')\<rparr> = Inr r
       \<and> ''fabricated-dates'' \<notin> set (signals r))"
proof -
  let ?e = "\<lparr>now = 1793664000000, roll_over = False, wide_toLowerCase = (\<lambda>s. s)\<rparr>"
  have a: "regex_match future_re (toLowerCase ?e (js ''It happens on 2099-01-01''))
        = Some (js ''2099-01-01'')
      \<and> Date_parse (roll_over ?e) (js ''2099-01-01'') = Some 4070908800000
      \<and> now ?e < 4070908800000"
    by code_simp
  then have a': "\<exists>tok ms. regex_match future_re (toLowerCase ?e (js ''It happens on 2099-01-01''))
        = Some tok
      \<and> Date_parse (roll_over ?e) tok = Some ms \<and> now ?e < ms"
    by blast
  have b: "regex_match future_re (toLowerCase ?e (js ''It happened on 2020-01-01''))
        = Some (js ''2020-01-01'')
      \<and> Date_parse (roll_over ?e) (js ''2020-01-01'') = Some 1577836800000
      \<and> \<not> now ?e < 1577836800000"
    by code_simp
  then have b': "\<not> (\<exists>tok ms.
        regex_match future_re (toLowerCase ?e (js ''It happened on 2020-01-01'')) = Some tok
      \<and> Date_parse (roll_over ?e) tok = Some ms \<and> now ?e < ms)"
    by auto
  from a' fabricated_dates_iff_first_20xx_date_is_future
     [of ?e "''text''" "js ''It happens on 2099-01-01''"]
  have "\<exists>r. mockAnalyze ?e \<lparr>type_ = ''text'', content = JStr (js ''It happens on 2099-01-01'')\<rparr>
         = Inr r
       \<and> ''fabricated-dates'' \<in> set (signals r)"
    by (simp only: simp_thms)
  moreover from b' fabricated_dates_iff_first_20xx_date_is_future
     [of ?e "''text''" "js ''It happened on 2020-01-01''"]
  have "\<exists>r. mockAnalyze ?e \<lparr>type_ = ''text'', content = JStr (js ''It happened on 2020-01-01'')\<rparr>
         = Inr r
       \<and> ''fabricated-dates'' \<notin> set (signals r)"
    by (simp only: simp_thms)
  ultimately show ?thesis by (rule conjI)
qed

text \<open>
  A date of a later century is in the future and does not fire the signal: analysed on
  2026-11-03, the content "It happens on 2100-01-01" has no signals. Neither has
  "From 2020-01-01 until 2099-01-01", whose first date is past and whose second is not.
\<close>

theorem fabricated_dates_counterexample:
  "Date_parse False (js ''2100-01-01'') = Some 4102444800000
   \<and> Date_parse True (js ''2100-01-01'') = Some 4102444800000
   \<and> Date_parse False (js ''2099-01-01'') = Some 4070908800000
   \<and> Date_parse True (js ''2099-01-01'') = Some 4070908800000
   \<and> (1793664000000 :: int) < 4070908800000
   \<and> mockAnalyze \<lparr>now = 1793664000000, roll_over = False, wide_toLowerCase = (\<lambda>s. s)\<rparr>
       \<lparr>type_ = ''text'', content = JStr (js ''It happens on 2100-01-01'')\<rparr> =
      Inr \<lparr>verdict = ''Unclear / Needs Review'', confidence = 50, signals = [],
           explanation = [Expl_no_flags],
           recommendedActions =
             [Cross_check, Search_exact_text, Reverse_image_search, Prefer_primary]\<rparr>
   \<and> mockAnalyze \<lparr>now = 1793664000000, roll_over = True, wide_toLowerCase = (\<lambda>s. s)\<rparr>
       \<lparr>type_ = ''text'', content = JStr (js ''It happens on 2100-01-01'')\<rparr> =
      Inr \<lparr>verdict = ''Unclear / Needs Review'', confidence = 50, signals = [],
           explanation = [Expl_no_flags],
           recommendedActions =
             [Cross_check, Search_exact_text, Reverse_image_search, Prefer_primary]\<rparr>
   \<and> mockAnalyze \<lparr>now = 1793664000000, roll_over = False, wide_toLowerCase = (\<lambda>s. s)\<rparr>
       \<lparr>type_ = ''text'', content = JStr (js ''From 2020-01-01 until 2099-01-01'')\<rparr> =
      Inr \<lparr>verdict = ''Unclear / Needs Review'', confidence = 50, signals = [],
           explanation = [Expl_no_flags],
           recommendedActions =
             [Cross_check, Search_exact_text, Reverse_image_search, Prefer_primary]\<rparr>"
  by code_simp

section \<open>Absent and non-string content\<close>

text \<open>
  C6, as the code has it. A call raises an error exactly when its content is a truthy
  value that is not a string and whose \<^verbatim>\<open>toString()\<close> throws or gives no string, and
  the error is that failure's (a TypeError for an object without a callable
  \<^verbatim>\<open>toString\<close>); every other call, so every call on a string or an absent content,
  returns a result. A falsy content
  (\<^verbatim>\<open>undefined\<close>, \<^verbatim>\<open>null\<close>, \<^verbatim>\<open>false\<close>, \<^verbatim>\<open>0\<close>, the empty string) is analysed
  exactly as the empty string, whose result has the signals \<open>too-short\<close> only, confidence
  50 and verdict \<open>Unclear / Needs Review\<close>. A truthy value whose \<^verbatim>\<open>toString()\<close>
  returns a string is analysed exactly as that string.
\<close>

theorem error_only_when_toString_fails:
  "(mockAnalyze e \<lparr>type_ = t, content = c\<rparr> = Inl err \<longleftrightarrow> c = JOther True (Inl err))
   \<and> ((\<exists>r. mockAnalyze e \<lparr>type_ = t, content = c\<rparr> = Inr r)
        \<or> (\<exists>err'. c = JOther True (Inl err')))
   \<and> (\<exists>r. mockAnalyze e \<lparr>type_ = t, content = JStr s\<rparr> = Inr r)
   \<and> (\<not> truthy c \<longrightarrow>
        mockAnalyze e \<lparr>type_ = t, content = c\<rparr> = mockAnalyze e \<lparr>type_ = t, content = JStr []\<rparr>)
   \<and> mockAnalyze e \<lparr>type_ = t, content = JStr []\<rparr> =
       Inr \<lparr>verdict = ''Unclear / Needs Review'', confidence = 50, signals = [''too-short''],
            explanation = [Expl_too_short],
            recommendedActions =
              [Cross_check, Search_exact_text, Reverse_image_search, Prefer_primary]\<rparr>
   \<and> (truthy c \<and> toString c = Inr str \<longrightarrow>
        mockAnalyze e \<lparr>type_ = t, content = c\<rparr> = mockAnalyze e \<lparr>type_ = t, content = JStr str\<rparr>)"
proof -
  let ?p = "\<lparr>type_ = t, content = c\<rparr>"
  have a: "mockAnalyze e ?p = Inl err \<longleftrightarrow> c = JOther True (Inl err)"
  proof (cases "content_text c")
    case (Inl err')
    then have "mockAnalyze e ?p = Inl err'"
      using mockAnalyze_Inl [of ?p err' e] by simp
    moreover have "c = JOther True (Inl err')"
      using Inl by (simp add: content_text_Inl_iff)
    ultimately show ?thesis by auto
  next
    case (Inr str')
    then have "\<exists>r. mockAnalyze e ?p = Inr r"
      using mockAnalyze_Inr [of ?p str' e] by simp
    moreover have "c \<noteq> JOther True (Inl err)"
      using Inr content_text_Inl_iff [of c err] by auto
    ultimately show ?thesis by auto
  qed
  have b: "(\<exists>r. mockAnalyze e ?p = Inr r) \<or> (\<exists>err'. c = JOther True (Inl err'))"
    using mockAnalyze_result_or_error [of ?p e "\<lambda>r. True"] mockAnalyze_Inr [of ?p _ e]
    by auto
  have s: "\<exists>r. mockAnalyze e \<lparr>type_ = t, content = JStr s\<rparr> = Inr r"
    by (simp add: mockAnalyze_JStr)
  have f: "\<not> truthy c \<longrightarrow>
        mockAnalyze e ?p = mockAnalyze e \<lparr>type_ = t, content = JStr []\<rparr>"
    using mockAnalyze_text [OF content_text_falsy] by blast
  have conf: "fakeConfidenceFromSignals [''too-short''] = 50"
    by (simp add: fakeConfidenceFromSignals_def rawScore_flags flag_score_def clamp_def)
  have expl: "explain [''too-short''] = [Expl_too_short]"
    by (simp add: explain_lines)
  have d: "mockAnalyze e \<lparr>type_ = t, content = JStr []\<rparr> =
       Inr \<lparr>verdict = ''Unclear / Needs Review'', confidence = 50, signals = [''too-short''],
            explanation = [Expl_too_short],
            recommendedActions =
              [Cross_check, Search_exact_text, Reverse_image_search, Prefer_primary]\<rparr>"
    by (simp add: mockAnalyze_JStr toLowerCase_Nil collect_signals_empty conf expl verdict_of_def)
  have g: "truthy c \<and> toString c = Inr str \<longrightarrow>
        mockAnalyze e ?p = mockAnalyze e \<lparr>type_ = t, content = JStr str\<rparr>"
  proof
    assume "truthy c \<and> toString c = Inr str"
    then have "content_text c = Inr str"
      by (simp add: content_text_def js_or_def)
    then show "mockAnalyze e ?p = mockAnalyze e \<lparr>type_ = t, content = JStr str\<rparr>"
      by (rule mockAnalyze_text)
  qed
  from a b s f d g show ?thesis by (simp only: simp_thms)
qed

theorem error_only_when_toString_fails_witness:
  "mockAnalyze \<lparr>now = 1793664000000, roll_over = False, wide_toLowerCase = (\<lambda>s. s)\<rparr>
      \<lparr>type_ = ''text'', content = JUndefined\<rparr>
     = Inr \<lparr>verdict = ''Unclear / Needs Review'', confidence = 50, signals = [''too-short''],
            explanation = [Expl_too_short],
            recommendedActions =
              [Cross_check, Search_exact_text, Reverse_image_search, Prefer_primary]\<rparr>
   \<and> mockAnalyze \<lparr>now = 1793664000000, roll_over = False, wide_toLowerCase = (\<lambda>s. s)\<rparr>
      \<lparr>type_ = ''text'', content = JBool True\<rparr>
     = mockAnalyze \<lparr>now = 1793664000000, roll_over = False, wide_toLowerCase = (\<lambda>s. s)\<rparr>
      \<lparr>type_ = ''text'', content = JStr (js ''true'')\<rparr>"
proof -
  let ?e = "\<lparr>now = 1793664000000, roll_over = False, wide_toLowerCase = (\<lambda>s. s)\<rparr>"
  have h1: "\<not> truthy JUndefined" by simp
  have h2: "truthy (JBool True) \<and> toString (JBool True) = Inr (js ''true'')" by simp
  from h1 error_only_when_toString_fails [of ?e "''text''" JUndefined]
  have "mockAnalyze ?e \<lparr>type_ = ''text'', content = JUndefined\<rparr>
     = Inr \<lparr>verdict = ''Unclear / Needs Review'', confidence = 50, signals = [''too-short''],
            explanation = [Expl_too_short],
            recommendedActions =
              [Cross_check, Search_exact_text, Reverse_image_search, Prefer_primary]\<rparr>"
    by (simp only: simp_thms)
  moreover from h2 error_only_when_toString_fails
      [of ?e "''text''" "JBool True" _ _ "js ''true''"]
  have "mockAnalyze ?e \<lparr>type_ = ''text'', content = JBool True\<rparr>
     = mockAnalyze ?e \<lparr>type_ = ''text'', content = JStr (js ''true'')\<rparr>"
    by (simp only: simp_thms)
  ultimately show ?thesis by (rule conjI)
qed

text \<open>
  An object without a callable \<^verbatim>\<open>toString\<close>, such as \<^verbatim>\<open>Object.create(null)\<close>, makes
  line 39 throw a TypeError. And a truthy non-string content is not treated as the empty
  string: the number 12345678901, whose \<^verbatim>\<open>toString()\<close> is "12345678901", has no signals
  at all, where the empty string has \<open>too-short\<close>.
\<close>

theorem non_string_content_counterexample:
  "mockAnalyze \<lparr>now = 1793664000000, roll_over = False, wide_toLowerCase = (\<lambda>s. s)\<rparr>
       \<lparr>type_ = ''text'', content = JOther True (Inl TypeError)\<rparr> = Inl TypeError
   \<and> mockAnalyze \<lparr>now = 1793664000000, roll_over = False, wide_toLowerCase = (\<lambda>s. s)\<rparr>
       \<lparr>type_ = ''text'', content = JOther True (Inr (js ''12345678901''))\<rparr> =
      Inr \<lparr>verdict = ''Unclear / Needs Review'', confidence = 50, signals = [],
           explanation = [Expl_no_flags],
           recommendedActions =
             [Cross_check, Search_exact_text, Reverse_image_search, Prefer_primary]\<rparr>
   \<and> mockAnalyze \<lparr>now = 1793664000000, roll_over = False, wide_toLowerCase = (\<lambda>s. s)\<rparr>
       \<lparr>type_ = ''text'', content = JStr []\<rparr> =
      Inr \<lparr>verdict = ''Unclear / Needs Review'', confidence = 50, signals = [''too-short''],
           explanation = [Expl_too_short],
           recommendedActions =
             [Cross_check, Search_exact_text, Reverse_image_search, Prefer_primary]\<rparr>"
  by code_simp

section \<open>The signal \<open>too-short\<close> and the other checks\<close>

text \<open>
  C7, as the code has it. Every check matches against the lower-cased content, the length
  test too: for a string content, \<open>too-short\<close> is among the signals exactly when the
  trimmed lower-cased text is shorter than 10 code units, and it is among them for every
  absent (falsy) content. For a content of code units below 256 that is exactly when the
  trimmed content itself is shorter than 10. Each of the other six signals is decided by
  its own test on the lower-cased content, whether or not \<open>too-short\<close> is present: the
  content "SHOCKING" has both \<open>too-short\<close> and \<open>clickbait-y\<close>.
\<close>

theorem too_short_alongside_other_signals:
  "(\<exists>r. mockAnalyze e \<lparr>type_ = t, content = JStr s\<rparr> = Inr r
      \<and> (''too-short'' \<in> set (signals r) \<longleftrightarrow> length (trim (toLowerCase e s)) < 10)
      \<and> (list_all (\<lambda>u. 0 \<le> u \<and> u < 256) s \<longrightarrow>
            (''too-short'' \<in> set (signals r) \<longleftrightarrow> length (trim s) < 10))
      \<and> (''clickbait-y'' \<in> set (signals r) \<longleftrightarrow>
            str_includes (toLowerCase e s) (js ''shocking'')
            \<or> str_includes (toLowerCase e s) (js ''you won't believe''))
      \<and> (''no-sources'' \<in> set (signals r) \<longleftrightarrow>
            str_includes (toLowerCase e s) (js ''according to our sources'')
            \<and> \<not> str_includes (toLowerCase e s) (js ''https''))
      \<and> (''fabricated-dates'' \<in> set (signals r) \<longleftrightarrow> fabricated_date e (toLowerCase e s))
      \<and> (''image-manipulated'' \<in> set (signals r) \<longleftrightarrow>
            str_includes (toLowerCase e s) (js ''deepfake'')
            \<or> str_includes (toLowerCase e s) (js ''ai-generated''))
      \<and> (''authoritative-sources'' \<in> set (signals r) \<longleftrightarrow>
            str_includes (toLowerCase e s) (js ''cdc'')
            \<or> str_includes (toLowerCase e s) (js ''who'')
            \<or> str_includes (toLowerCase e s) (js ''nyt''))
      \<and> (''many-contradictions'' \<in> set (signals r) \<longleftrightarrow>
            str_includes (toLowerCase e s) (js ''contradictory'')
            \<or> str_includes (toLowerCase e s) (js ''but then'')))
   \<and> (\<not> truthy c \<longrightarrow>
        (\<exists>r. mockAnalyze e \<lparr>type_ = t, content = c\<rparr> = Inr r
           \<and> ''too-short'' \<in> set (signals r)))
   \<and> (\<exists>r. mockAnalyze e \<lparr>type_ = t, content = JStr (js ''SHOCKING'')\<rparr> = Inr r
          \<and> signals r = [''too-short'', ''clickbait-y''])"
proof -
  have too_short_raw: "(s = [] \<or> length (trim s) < 10) \<longleftrightarrow> length (trim s) < 10"
    by (cases s) (simp_all add: trim_Nil)
  have latin: "list_all (\<lambda>u. 0 \<le> u \<and> u < 256) s \<longrightarrow>
      (length (trim (toLowerCase e s)) < 10 \<longleftrightarrow> length (trim s) < 10)"
    by (simp add: length_trim_toLowerCase)
  have a: "\<exists>r. mockAnalyze e \<lparr>type_ = t, content = JStr s\<rparr> = Inr r
      \<and> (''too-short'' \<in> set (signals r) \<longleftrightarrow> length (trim (toLowerCase e s)) < 10)
      \<and> (list_all (\<lambda>u. 0 \<le> u \<and> u < 256) s \<longrightarrow>
            (''too-short'' \<in> set (signals r) \<longleftrightarrow> length (trim s) < 10))
      \<and> (''clickbait-y'' \<in> set (signals r) \<longleftrightarrow>
            str_includes (toLowerCase e s) (js ''shocking'')
            \<or> str_includes (toLowerCase e s) (js ''you won't believe''))
      \<and> (''no-sources'' \<in> set (signals r) \<longleftrightarrow>
            str_includes (toLowerCase e s) (js ''according to our sources'')
            \<and> \<not> str_includes (toLowerCase e s) (js ''https''))
      \<and> (''fabricated-dates'' \<in> set (signals r) \<longleftrightarrow> fabricated_date e (toLowerCase e s))
      \<and> (''image-manipulated'' \<in> set (signals r) \<longleftrightarrow>
            str_includes (toLowerCase e s) (js ''deepfake'')
            \<or> str_includes (toLowerCase e s) (js ''ai-generated''))
      \<and> (''authoritative-sources'' \<in> set (signals r) \<longleftrightarrow>
            str_includes (toLowerCase e s) (js ''cdc'')
            \<or> str_includes (toLowerCase e s) (js ''who'')
            \<or> str_includes (toLowerCase e s) (js ''nyt''))
      \<and> (''many-contradictions'' \<in> set (signals r) \<longleftrightarrow>
            str_includes (toLowerCase e s) (js ''contradictory'')
            \<or> str_includes (toLowerCase e s) (js ''but then''))"
    using latin by (simp add: mockAnalyze_JStr in_collect_signals too_short_string too_short_raw)
  have b: "\<not> truthy c \<longrightarrow>
        (\<exists>r. mockAnalyze e \<lparr>type_ = t, content = c\<rparr> = Inr r
           \<and> ''too-short'' \<in> set (signals r))"
  proof
    assume f: "\<not> truthy c"
    have "mockAnalyze e \<lparr>type_ = t, content = c\<rparr> =
        mockAnalyze e \<lparr>type_ = t, content = JStr []\<rparr>"
      using mockAnalyze_text [OF content_text_falsy [OF f]] .
    then show "\<exists>r. mockAnalyze e \<lparr>type_ = t, content = c\<rparr> = Inr r
           \<and> ''too-short'' \<in> set (signals r)"
      by (simp add: mockAnalyze_JStr toLowerCase_Nil collect_signals_empty)
  qed
  let ?c = "js ''SHOCKING''"
  have rep: "list_all in_repertoire ?c" by code_simp
  have nodate: "regex_match date_re (concat (map lower_unit ?c)) = None" by code_simp
  have closed: "mockAnalyze \<lparr>now = 0, roll_over = False, wide_toLowerCase = (\<lambda>s. s)\<rparr>
      \<lparr>type_ = [], content = JStr ?c\<rparr> =
      Inr \<lparr>verdict = ''Unclear / Needs Review'', confidence = 50,
           signals = [''too-short'', ''clickbait-y''],
           explanation = [Expl_too_short, Expl_clickbait],
           recommendedActions =
             [Cross_check, Search_exact_text, Reverse_image_search, Prefer_primary]\<rparr>"
    by code_simp
  have d: "\<exists>r. mockAnalyze e \<lparr>type_ = t, content = JStr ?c\<rparr> = Inr r
          \<and> signals r = [''too-short'', ''clickbait-y'']"
  proof -
    have "mockAnalyze e \<lparr>type_ = t, content = JStr ?c\<rparr> =
        mockAnalyze \<lparr>now = 0, roll_over = False, wide_toLowerCase = (\<lambda>s. s)\<rparr>
          \<lparr>type_ = [], content = JStr ?c\<rparr>"
      by (rule mockAnalyze_any_env [OF rep nodate])
    then show ?thesis by (simp add: closed)
  qed
  from a b d show ?thesis by (simp only: simp_thms)
qed

theorem too_short_alongside_other_signals_witness:
  "list_all (\<lambda>u. 0 \<le> u \<and> u < 256) (js '' Shocking  '')
   \<and> length (trim (js '' Shocking  '')) < 10
   \<and> (\<exists>r. mockAnalyze \<lparr>now = 1793664000000, roll_over = False, wide_toLowerCase = (\<lambda>s. s)\<rparr>
          \<lparr>type_ = ''text'', content = JStr (js '' Shocking  '')\<rparr> = Inr r
        \<and> ''too-short'' \<in> set (signals r) \<and> ''clickbait-y'' \<in> set (signals r))
   \<and> (\<exists>r. mockAnalyze \<lparr>now = 1793664000000, roll_over = False, wide_toLowerCase = (\<lambda>s. s)\<rparr>
          \<lparr>type_ = ''text'', content = JNull\<rparr> = Inr r
        \<and> ''too-short'' \<in> set (signals r))"
proof -
  let ?e = "\<lparr>now = 1793664000000, roll_over = False, wide_toLowerCase = (\<lambda>s. s)\<rparr>"
  let ?s = "js '' Shocking  ''"
  have l: "list_all (\<lambda>u. 0 \<le> u \<and> u < 256) ?s" by code_simp
  have h: "length (trim ?s) < 10" by code_simp
  have k: "str_includes (toLowerCase ?e ?s) (js ''shocking'')" by code_simp
  have f: "\<not> truthy JNull" by simp
  have "\<exists>r. mockAnalyze ?e \<lparr>type_ = ''text'', content = JStr ?s\<rparr> = Inr r
      \<and> (''too-short'' \<in> set (signals r) \<longleftrightarrow> length (trim (toLowerCase ?e ?s)) < 10)
      \<and> (list_all (\<lambda>u. 0 \<le> u \<and> u < 256) ?s \<longrightarrow>
            (''too-short'' \<in> set (signals r) \<longleftrightarrow> length (trim ?s) < 10))
      \<and> (''clickbait-y'' \<in> set (signals r) \<longleftrightarrow>
            str_includes (toLowerCase ?e ?s) (js ''shocking'')
            \<or> str_includes (toLowerCase ?e ?s) (js ''you won't believe''))
      \<and> (''no-sources'' \<in> set (signals r) \<longleftrightarrow>
            str_includes (toLowerCase ?e ?s) (js ''according to our sources'')
            \<and> \<not> str_includes (toLowerCase ?e ?s) (js ''https''))
      \<and> (''fabricated-dates'' \<in> set (signals r) \<longleftrightarrow> fabricated_date ?e (toLowerCase ?e ?s))
      \<and> (''image-manipulated'' \<in> set (signals r) \<longleftrightarrow>
            str_includes (toLowerCase ?e ?s) (js ''deepfake'')
            \<or> str_includes (toLowerCase ?e ?s) (js ''ai-generated''))
      \<and> (''authoritative-sources'' \<in> set (signals r) \<longleftrightarrow>
            str_includes (toLowerCase ?e ?s) (js ''cdc'')
            \<or> str_includes (toLowerCase ?e ?s) (js ''who'')
            \<or> str_includes (toLowerCase ?e ?s) (js ''nyt''))
      \<and> (''many-contradictions'' \<in> set (signals r) \<longleftrightarrow>
            str_includes (toLowerCase ?e ?s) (js ''contradictory'')
            \<or> str_includes (toLowerCase ?e ?s) (js ''but then''))"
    using too_short_alongside_other_signals [of ?e "''text''" ?s JNull] by (rule conjunct1)
  then obtain r where r: "mockAnalyze ?e \<lparr>type_ = ''text'', content = JStr ?s\<rparr> = Inr r"
    and ts: "list_all (\<lambda>u. 0 \<le> u \<and> u < 256) ?s \<longrightarrow>
            (''too-short'' \<in> set (signals r) \<longleftrightarrow> length (trim ?s) < 10)"
    and cb: "''clickbait-y'' \<in> set (signals r) \<longleftrightarrow>
            str_includes (toLowerCase ?e ?s) (js ''shocking'')
            \<or> str_includes (toLowerCase ?e ?s) (js ''you won't believe'')"
    by (elim exE conjE)
  from ts l h have "''too-short'' \<in> set (signals r)" by (simp only: simp_thms)
  moreover from cb k have "''clickbait-y'' \<in> set (signals r)" by (simp only: simp_thms)
  ultimately have "mockAnalyze ?e \<lparr>type_ = ''text'', content = JStr ?s\<rparr> = Inr r
        \<and> ''too-short'' \<in> set (signals r) \<and> ''clickbait-y'' \<in> set (signals r)"
    using r by (simp only: simp_thms)
  then have a: "\<exists>r. mockAnalyze ?e \<lparr>type_ = ''text'', content = JStr ?s\<rparr> = Inr r
        \<and> ''too-short'' \<in> set (signals r) \<and> ''clickbait-y'' \<in> set (signals r)"
    by (rule exI)
  from f too_short_alongside_other_signals [of ?e "''text''" ?s JNull]
  have b: "\<exists>r. mockAnalyze ?e \<lparr>type_ = ''text'', content = JNull\<rparr> = Inr r
        \<and> ''too-short'' \<in> set (signals r)"
    by (simp only: simp_thms)
  from l h a b show ?thesis by (simp only: simp_thms)
qed

text \<open>
  Lower-casing can lengthen a text: the capital I with dot above becomes two code units.
  The content U+0130 followed by "stanbul!" has 9 code units, its lower-cased text has
  10, and \<open>too-short\<close> is not among its signals.
\<close>

theorem too_short_counterexample:
  "length (trim (304 # js ''stanbul!'')) = 9
   \<and> toLowerCase \<lparr>now = 1793664000000, roll_over = False, wide_toLowerCase = (\<lambda>s. s)\<rparr>
        (304 # js ''stanbul!'') = 105 # 775 # js ''stanbul!''
   \<and> mockAnalyze \<lparr>now = 1793664000000, roll_over = False, wide_toLowerCase = (\<lambda>s. s)\<rparr>
       \<lparr>type_ = ''text'', content = JStr (304 # js ''stanbul!'')\<rparr> =
      Inr \<lparr>verdict = ''Unclear / Needs Review'', confidence = 50, signals = [],
           explanation = [Expl_no_flags],
           recommendedActions =
             [Cross_check, Search_exact_text, Reverse_image_search, Prefer_primary]\<rparr>"
  by code_simp

section \<open>The signal \<open>no-sources\<close>\<close>

text \<open>
  C8, as the code has it. For every string content, \<open>no-sources\<close> is among the signals
  exactly when the lower-cased content includes "according to our sources" and does not
  include the substring "https".
\<close>

theorem no_sources_iff_phrase_without_https:
  "\<exists>r. mockAnalyze e \<lparr>type_ = t, content = JStr s\<rparr> = Inr r
     \<and> (''no-sources'' \<in> set (signals r) \<longleftrightarrow>
          str_includes (toLowerCase e s) (js ''according to our sources'')
          \<and> \<not> str_includes (toLowerCase e s) (js ''https''))"
  by (simp add: mockAnalyze_JStr in_collect_signals)

theorem no_sources_iff_phrase_without_https_witness:
  "(\<exists>r. mockAnalyze \<lparr>now = 1793664000000, roll_over = False, wide_toLowerCase = (\<lambda>s. s)\<rparr>
       \<lparr>type_ = ''text'', content = JStr (js ''According to our sources it is true'')\<rparr> = Inr r
       \<and> ''no-sources'' \<in> set (signals r))
   \<and> (\<exists>r. mockAnalyze \<lparr>now = 1793664000000, roll_over = False, wide_toLowerCase = (\<lambda>s. s)\<rparr>
       \<lparr>type_ = ''text'',
        content = JStr (js ''according to our sources, see https://example.com'')\<rparr> = Inr r
       \<and> ''no-sources'' \<notin> set (signals r))"
proof -
  let ?e = "\<lparr>now = 1793664000000, roll_over = False, wide_toLowerCase = (\<lambda>s. s)\<rparr>"
  have a: "str_includes (toLowerCase ?e (js ''According to our sources it is true''))
      (js ''according to our sources'')
    \<and> \<not> str_includes (toLowerCase ?e (js ''According to our sources it is true''))
      (js ''https'')"
    by code_simp
  have b: "str_includes
      (toLowerCase ?e (js ''according to our sources, see https://example.com''))
      (js ''https'')"
    by code_simp
  from a no_sources_iff_phrase_without_https [of ?e "''text''"
      "js ''According to our sources it is true''"]
  have "\<exists>r. mockAnalyze ?e
       \<lparr>type_ = ''text'', content = JStr (js ''According to our sources it is true'')\<rparr> = Inr r
       \<and> ''no-sources'' \<in> set (signals r)"
    by (simp only: simp_thms)
  moreover from b no_sources_iff_phrase_without_https [of ?e "''text''"
      "js ''according to our sources, see https://example.com''"]
  have "\<exists>r. mockAnalyze ?e
       \<lparr>type_ = ''text'',
        content = JStr (js ''according to our sources, see https://example.com'')\<rparr> = Inr r
       \<and> ''no-sources'' \<notin> set (signals r)"
    by (simp only: simp_thms)
  ultimately show ?thesis by (rule conjI)
qed

text \<open>
  The test for a link is the substring "https" only: a content with the phrase and the
  link \<^verbatim>\<open>http://example.com\<close> still has the signal.
\<close>

theorem no_sources_url_counterexample:
  "str_includes
     (toLowerCase \<lparr>now = 1793664000000, roll_over = False, wide_toLowerCase = (\<lambda>s. s)\<rparr>
        (js ''According to our sources, see http://example.com''))
     (js ''http://example.com'')
   \<and> mockAnalyze \<lparr>now = 1793664000000, roll_over = False, wide_toLowerCase = (\<lambda>s. s)\<rparr>
     \<lparr>type_ = ''text'',
      content = JStr (js ''According to our sources, see http://example.com'')\<rparr> =
     Inr \<lparr>verdict = ''Likely Fake'', confidence = 35, signals = [''no-sources''],
          explanation = [Expl_no_sources],
          recommendedActions =
            [Cross_check, Search_exact_text, Reverse_image_search, Prefer_primary]\<rparr>"
  by code_simp

section \<open>The signal \<open>authoritative-sources\<close>\<close>

text \<open>
  C10, as the code has it. The test for \<open>authoritative-sources\<close> is a plain substring
  test: whenever the lower-cased content holds "cdc", "who" or "nyt" anywhere, also inside
  a longer word such as "whoever" or "whole", the signal is present. It adds 25 to the
  score before clamping, and the confidence is that score clamped to 0..100: the
  confidence is 25 above the confidence of the other signals alone exactly when their
  score alone is at least 0, and less than 25 above it otherwise.
\<close>

theorem authoritative_sources_is_substring_test:
  assumes "toLowerCase e s = pre @ w @ post"
    and "w = js ''cdc'' \<or> w = js ''who'' \<or> w = js ''nyt''"
  shows "\<exists>r. mockAnalyze e \<lparr>type_ = t, content = JStr s\<rparr> = Inr r
     \<and> ''authoritative-sources'' \<in> set (signals r)
     \<and> rawScore (signals r) = rawScore (removeAll ''authoritative-sources'' (signals r)) + 25
     \<and> confidence r =
         max 0 (min 100 (rawScore (removeAll ''authoritative-sources'' (signals r)) + 25))
     \<and> (0 \<le> rawScore (removeAll ''authoritative-sources'' (signals r)) \<longleftrightarrow>
          confidence r =
            fakeConfidenceFromSignals (removeAll ''authoritative-sources'' (signals r)) + 25)
     \<and> fakeConfidenceFromSignals (removeAll ''authoritative-sources'' (signals r))
          \<le> confidence r
     \<and> confidence r
          \<le> fakeConfidenceFromSignals (removeAll ''authoritative-sources'' (signals r)) + 25"
proof -
  have "str_includes (toLowerCase e s) w"
    using assms(1) str_includes_iff by blast
  with assms(2) have inc: "str_includes (toLowerCase e s) (js ''cdc'')
      \<or> str_includes (toLowerCase e s) (js ''who'') \<or> str_includes (toLowerCase e s) (js ''nyt'')"
    by blast
  define sigs where "sigs = collect_signals e (JStr s) (toLowerCase e s)"
  let ?rest = "rawScore (removeAll ''authoritative-sources'' sigs)"
  define R where "R = \<lparr>verdict = verdict_of (fakeConfidenceFromSignals sigs),
          confidence = fakeConfidenceFromSignals sigs,
          signals = sigs,
          explanation = explain sigs,
          recommendedActions =
            [Cross_check, Search_exact_text, Reverse_image_search, Prefer_primary]\<rparr>"
  have mem: "''authoritative-sources'' \<in> set sigs"
    using inc by (simp add: sigs_def in_collect_signals)
  have raw: "rawScore sigs = ?rest + 25"
    by (rule rawScore_authoritative [OF mem])
  have le: "?rest \<le> 50"
    unfolding rawScore_flags flag_score_def by simp
  have conf: "fakeConfidenceFromSignals sigs = max 0 (min 100 (?rest + 25))"
    by (simp only: fakeConfidenceFromSignals_def clamp_def raw)
  have without: "fakeConfidenceFromSignals (removeAll ''authoritative-sources'' sigs)
      = max 0 (min 100 ?rest)"
    by (simp only: fakeConfidenceFromSignals_def clamp_def)
  note arith = plus_25_clamped [OF le]
  have res: "mockAnalyze e \<lparr>type_ = t, content = JStr s\<rparr> = Inr R"
    unfolding R_def sigs_def by (rule mockAnalyze_JStr)
  have sel: "signals R = sigs" "confidence R = fakeConfidenceFromSignals sigs"
    by (simp_all add: R_def)
  have core: "''authoritative-sources'' \<in> set sigs
     \<and> rawScore sigs = ?rest + 25
     \<and> fakeConfidenceFromSignals sigs = max 0 (min 100 (?rest + 25))
     \<and> (0 \<le> ?rest \<longleftrightarrow>
          fakeConfidenceFromSignals sigs =
            fakeConfidenceFromSignals (removeAll ''authoritative-sources'' sigs) + 25)
     \<and> fakeConfidenceFromSignals (removeAll ''authoritative-sources'' sigs)
          \<le> fakeConfidenceFromSignals sigs
     \<and> fakeConfidenceFromSignals sigs
          \<le> fakeConfidenceFromSignals (removeAll ''authoritative-sources'' sigs) + 25"
    unfolding without conf using mem raw arith by (simp only: simp_thms)
  have "''authoritative-sources'' \<in> set (signals R)
     \<and> rawScore (signals R) = rawScore (removeAll ''authoritative-sources'' (signals R)) + 25
     \<and> confidence R =
         max 0 (min 100 (rawScore (removeAll ''authoritative-sources'' (signals R)) + 25))
     \<and> (0 \<le> rawScore (removeAll ''authoritative-sources'' (signals R)) \<longleftrightarrow>
          confidence R =
            fakeConfidenceFromSignals (removeAll ''authoritative-sources'' (signals R)) + 25)
     \<and> fakeConfidenceFromSignals (removeAll ''authoritative-sources'' (signals R))
          \<le> confidence R
     \<and> confidence R
          \<le> fakeConfidenceFromSignals (removeAll ''authoritative-sources'' (signals R)) + 25"
    unfolding sel by (rule core)
  with res have "mockAnalyze e \<lparr>type_ = t, content = JStr s\<rparr> = Inr R
     \<and> ''authoritative-sources'' \<in> set (signals R)
     \<and> rawScore (signals R) = rawScore (removeAll ''authoritative-sources'' (signals R)) + 25
     \<and> confidence R =
         max 0 (min 100 (rawScore (removeAll ''authoritative-sources'' (signals R)) + 25))
     \<and> (0 \<le> rawScore (removeAll ''authoritative-sources'' (signals R)) \<longleftrightarrow>
          confidence R =
            fakeConfidenceFromSignals (removeAll ''authoritative-sources'' (signals R)) + 25)
     \<and> fakeConfidenceFromSignals (removeAll ''authoritative-sources'' (signals R))
          \<le> confidence R
     \<and> confidence R
          \<le> fakeConfidenceFromSignals (removeAll ''authoritative-sources'' (signals R)) + 25"
    by (rule conjI)
  then show ?thesis by (rule exI)
qed

theorem authoritative_sources_is_substring_test_witness:
  "toLowerCase \<lparr>now = 1793664000000, roll_over = False, wide_toLowerCase = (\<lambda>s. s)\<rparr>
      (js ''Whoever ate the whole cake'') = [] @ js ''who'' @ js ''ever ate the whole cake''
   \<and> mockAnalyze \<lparr>now = 1793664000000, roll_over = False, wide_toLowerCase = (\<lambda>s. s)\<rparr>
          \<lparr>type_ = ''text'', content = JStr (js ''Whoever ate the whole cake'')\<rparr> =
      Inr \<lparr>verdict = ''Likely Real'', confidence = 75,
           signals = [''authoritative-sources''],
           explanation = [Expl_authoritative],
           recommendedActions =
             [Cross_check, Search_exact_text, Reverse_image_search, Prefer_primary]\<rparr>
   \<and> 0 \<le> rawScore (removeAll ''authoritative-sources'' [''authoritative-sources''])
   \<and> (75 :: int) = fakeConfidenceFromSignals
        (removeAll ''authoritative-sources'' [''authoritative-sources'']) + 25"
proof -
  let ?e = "\<lparr>now = 1793664000000, roll_over = False, wide_toLowerCase = (\<lambda>s. s)\<rparr>"
  let ?s = "js ''Whoever ate the whole cake''"
  have h: "toLowerCase ?e ?s = [] @ js ''who'' @ js ''ever ate the whole cake''"
    by code_simp
  have k: "js ''who'' = js ''cdc'' \<or> js ''who'' = js ''who'' \<or> js ''who'' = js ''nyt''"
    by simp
  have v: "mockAnalyze ?e \<lparr>type_ = ''text'', content = JStr ?s\<rparr> =
      Inr \<lparr>verdict = ''Likely Real'', confidence = 75,
           signals = [''authoritative-sources''],
           explanation = [Expl_authoritative],
           recommendedActions =
             [Cross_check, Search_exact_text, Reverse_image_search, Prefer_primary]\<rparr>"
    by code_simp
  have z: "0 \<le> rawScore (removeAll ''authoritative-sources'' [''authoritative-sources''])"
    by (simp add: rawScore_flags flag_score_def)
  have "(75 :: int) = fakeConfidenceFromSignals
        (removeAll ''authoritative-sources'' [''authoritative-sources'']) + 25"
    using authoritative_sources_is_substring_test [OF h k, of "''text''"] z
    unfolding v by simp
  with h v z show ?thesis by (simp only: simp_thms)
qed

text \<open>
  Under clamping the signal need not raise the confidence at all. Analysed on 2026-11-03,
  "Who made the contradictory deepfake of 2099-01-01" has the signal and confidence 0
  (score 50 - 30 + 25 - 20 - 25 = 0); "He made the contradictory deepfake of 2099-01-01"
  has the same signals but this one, and confidence 0 as well (score -25).
\<close>

theorem authoritative_sources_counterexample:
  "mockAnalyze \<lparr>now = 1793664000000, roll_over = False, wide_toLowerCase = (\<lambda>s. s)\<rparr>
     \<lparr>type_ = ''text'',
      content = JStr (js ''Who made the contradictory deepfake of 2099-01-01'')\<rparr> =
     Inr \<lparr>verdict = ''Likely Fake'', confidence = 0,
          signals = [''fabricated-dates'', ''image-manipulated'', ''authoritative-sources'',
                     ''many-contradictions''],
          explanation = [Expl_fabricated_dates, Expl_authoritative, Expl_image_manipulated,
                         Expl_contradictions],
          recommendedActions =
            [Cross_check, Search_exact_text, Reverse_image_search, Prefer_primary]\<rparr>
   \<and> mockAnalyze \<lparr>now = 1793664000000, roll_over = False, wide_toLowerCase = (\<lambda>s. s)\<rparr>
     \<lparr>type_ = ''text'',
      content = JStr (js ''He made the contradictory deepfake of 2099-01-01'')\<rparr> =
     Inr \<lparr>verdict = ''Likely Fake'', confidence = 0,
          signals = [''fabricated-dates'', ''image-manipulated'', ''many-contradictions''],
          explanation = [Expl_fabricated_dates, Expl_image_manipulated, Expl_contradictions],
          recommendedActions =
            [Cross_check, Search_exact_text, Reverse_image_search, Prefer_primary]\<rparr>
   \<and> fakeConfidenceFromSignals
        [''fabricated-dates'', ''image-manipulated'', ''many-contradictions''] = 0"
  by code_simp

end
